theory Spec2Isabelle
  imports Main "HOL-Library.Word"
begin

unbundle bit_operations_syntax

section \<open>Traffic-light controller of the IS1300 project (PRO1)\<close>

text \<open>
  A shallow embedding of the controller: the shift-register light driver
  (595_shiftreg.c), the helper predicates (traffic_functions.c), the interrupt
  callbacks (clock.c) and the polling state machine (traffic.c).  All C globals and
  function-local statics are fields of one record; every C function is a function from
  state to state.
\<close>

subsection \<open>Constants of 595_shiftreg.h, main.h and timer_config.h\<close>

definition SHIFTREG_BUFFER_SIZE :: nat where "SHIFTREG_BUFFER_SIZE = 3"
definition U1 :: nat where "U1 = 2"
definition U2 :: nat where "U2 = 1"
definition U3 :: nat where "U3 = 0"

definition TL1_Red :: "32 word" where "TL1_Red = 0x010000"
definition TL1_Yellow :: "32 word" where "TL1_Yellow = 0x020000"
definition TL1_Green :: "32 word" where "TL1_Green = 0x040000"
definition PL1_Red :: "32 word" where "PL1_Red = 0x080000"
definition PL1_Green :: "32 word" where "PL1_Green = 0x100000"
definition PL1_Blue :: "32 word" where "PL1_Blue = 0x200000"

definition TL2_Red :: "32 word" where "TL2_Red = 0x0100"
definition TL2_Yellow :: "32 word" where "TL2_Yellow = 0x0200"
definition TL2_Green :: "32 word" where "TL2_Green = 0x0400"
definition PL2_Red :: "32 word" where "PL2_Red = 0x0800"
definition PL2_Green :: "32 word" where "PL2_Green = 0x1000"
definition PL2_Blue :: "32 word" where "PL2_Blue = 0x2000"

definition TL3_Red :: "32 word" where "TL3_Red = 0x01"
definition TL3_Yellow :: "32 word" where "TL3_Yellow = 0x02"
definition TL3_Green :: "32 word" where "TL3_Green = 0x04"
definition TL4_Red :: "32 word" where "TL4_Red = 0x08"
definition TL4_Yellow :: "32 word" where "TL4_Yellow = 0x10"
definition TL4_Green :: "32 word" where "TL4_Green = 0x20"

definition init_state :: "32 word" where
  "init_state = ((TL2_Green OR TL4_Green) OR PL2_Red) OR ((TL1_Red OR TL3_Red) OR PL1_Green)"

text \<open>The EXTI lines of main.h; \<open>GPIO_PIN_n\<close> is the HAL's one-hot mask \<open>1 << n\<close>.\<close>

definition TL1_Car_Pin :: "16 word" where "TL1_Car_Pin = 0x0010"
definition TL2_Car_Pin :: "16 word" where "TL2_Car_Pin = 0x2000"
definition TL3_Car_Pin :: "16 word" where "TL3_Car_Pin = 0x4000"
definition TL4_Car_Pin :: "16 word" where "TL4_Car_Pin = 0x0400"
definition PL1_Switch_Pin :: "16 word" where "PL1_Switch_Pin = 0x8000"
definition PL2_Switch_Pin :: "16 word" where "PL2_Switch_Pin = 0x0080"

text \<open>
  Modelled from the spec: the tick rate of the timers.  The prescaler that fixes it is
  set by the generated \<open>MX_TIMx_Init\<close> functions of tim.c, which is not among the
  sources.  The spec gives the nominal totals of the two wait states as 20 s and 30 s,
  and timer_config.h writes them as 40000 and 60000 ticks: 2000 ticks per second.  The
  comment at the head of timer_config.h says the same (a tick every 0.5 ms).
\<close>

definition ticks_per_second :: int where "ticks_per_second = 2000"

text \<open>
  The macros of timer_config.h are integer constant expressions, evaluated in \<open>int\<close>.
\<close>

definition TIMER_2s :: int where "TIMER_2s = 3999 - 100"
definition TIMER_5s :: int where "TIMER_5s = 9999 - 100"
definition toggle_Freq :: int where "toggle_Freq = 249"
definition orange_Delay :: int where "orange_Delay = 5999 - 100"
definition pedestrian_Delay :: int where "pedestrian_Delay = orange_Delay + TIMER_2s"
definition transition_Time :: int where "transition_Time = 30000"
definition red_delay_Max :: int where
  "red_delay_Max = ((40000 - transition_Time) - 1) - 100"
definition green_Delay :: int where
  "green_Delay = ((60000 - transition_Time) - 1) - 100"

subsection \<open>State\<close>

datatype states = Intersection1 | Intersection2 | Wait20s | Wait30s

datatype tim = TIM3 | TIM4 | TIM5 | TIM15

text \<open>
  A hardware timer as the controller sees it through the HAL: the counter register, the
  counter-enable bit, the update-interrupt enable bit and the update flag.
\<close>

record timer =
  cnt :: "32 word"
  enabled :: bool
  update_irq :: bool
  update_flag :: bool

text \<open>
  The globals of 595_shiftreg.c and traffic_functions.c, the timer handles, the static
  locals of each function (prefixed with the function's name) and the statics of
  \<open>Traffic\<close>.  \<open>spi_out\<close> is the sequence of frames sent to the shift registers
  and \<open>oled_log\<close> the sequence of \<open>draw_string\<close> calls: the two output sinks.
\<close>

record state =
  shiftreg_buffer :: "8 word list"
  spi_out :: "8 word list list"
  oled_log :: "(8 word \<times> 8 word \<times> string) list"
  crosswalk1_green :: bool
  crosswalk1_red :: bool
  crosswalk2_green :: bool
  crosswalk2_red :: bool
  PL1_SW_HIT :: bool
  PL2_SW_HIT :: bool
  intersection1_green :: bool
  intersection1_red :: bool
  intersection2_green :: bool
  intersection2_red :: bool
  car1_active :: bool
  car2_active :: bool
  car3_active :: bool
  car4_active :: bool
  timers :: "tim \<Rightarrow> timer"
  toggle_pedestrian_pin :: "32 word"
  toggle_pedestrian_toggle :: bool
  go_pedestrian_pin_red :: "32 word"
  go_pedestrian_pin_green :: "32 word"
  stop_pedestrian_pin_green :: "32 word"
  stop_pedestrian_pin_red :: "32 word"
  go_intersection_greens :: "32 word"
  go_intersection_yellows :: "32 word"
  go_intersection_reds :: "32 word"
  go_intersection_stage :: bool
  stop_intersection_greens :: "32 word"
  stop_intersection_yellows :: "32 word"
  stop_intersection_reds :: "32 word"
  stop_intersection_stage :: bool
  State :: states
  NextState :: states
  Intersection1_stage :: "8 word"
  Intersection2_stage :: "8 word"

subsection \<open>The HAL timer interface\<close>

definition HAL_TIM_Base_Start :: "tim \<Rightarrow> state \<Rightarrow> state" where
  "HAL_TIM_Base_Start h s = s\<lparr>timers := (timers s)(h := (timers s h)\<lparr>enabled := True\<rparr>)\<rparr>"

definition HAL_TIM_Base_Stop :: "tim \<Rightarrow> state \<Rightarrow> state" where
  "HAL_TIM_Base_Stop h s = s\<lparr>timers := (timers s)(h := (timers s h)\<lparr>enabled := False\<rparr>)\<rparr>"

definition HAL_TIM_Base_Start_IT :: "tim \<Rightarrow> state \<Rightarrow> state" where
  "HAL_TIM_Base_Start_IT h s =
     s\<lparr>timers := (timers s)(h := (timers s h)\<lparr>enabled := True, update_irq := True\<rparr>)\<rparr>"

definition HAL_TIM_Base_Stop_IT :: "tim \<Rightarrow> state \<Rightarrow> state" where
  "HAL_TIM_Base_Stop_IT h s =
     s\<lparr>timers := (timers s)(h := (timers s h)\<lparr>enabled := False, update_irq := False\<rparr>)\<rparr>"

definition HAL_TIM_SetCounter :: "tim \<Rightarrow> 32 word \<Rightarrow> state \<Rightarrow> state" where
  "HAL_TIM_SetCounter h v s = s\<lparr>timers := (timers s)(h := (timers s h)\<lparr>cnt := v\<rparr>)\<rparr>"

definition HAL_TIM_GetCounter :: "tim \<Rightarrow> state \<Rightarrow> 32 word" where
  "HAL_TIM_GetCounter h s = cnt (timers s h)"

definition HAL_TIM_CLEAR_FLAG :: "tim \<Rightarrow> state \<Rightarrow> state" where
  "HAL_TIM_CLEAR_FLAG h s =
     s\<lparr>timers := (timers s)(h := (timers s h)\<lparr>update_flag := False\<rparr>)\<rparr>"

text \<open>
  \<open>counter_reached h m s\<close> is the C test \<open>__HAL_TIM_GetCounter(&h) >= m\<close> for one of
  the (positive) macros \<open>m\<close> above.
\<close>

definition counter_reached :: "tim \<Rightarrow> int \<Rightarrow> state \<Rightarrow> bool" where
  "counter_reached h m s = (m \<le> uint (HAL_TIM_GetCounter h s))"

subsection \<open>595_shiftreg.c\<close>

text \<open>
  The two output sinks.  \<open>draw_string\<close> (ssd1306_config.c) renders a string into the
  frame buffer of the display and refreshes the screen; the model records the call.
  \<open>buffer_to_SPI\<close> sends the three bytes of \<open>shiftreg_buffer\<close> to the shift
  registers between two writes of the latch pin; the model records the frame sent.
\<close>

definition draw_string :: "8 word \<Rightarrow> 8 word \<Rightarrow> string \<Rightarrow> state \<Rightarrow> state" where
  "draw_string x y str s = s\<lparr>oled_log := oled_log s @ [(x, y, str)]\<rparr>"

definition buffer_to_SPI :: "state \<Rightarrow> state" where
  "buffer_to_SPI s = s\<lparr>spi_out := spi_out s @ [shiftreg_buffer s]\<rparr>"

definition update_shiftreg_buffer :: "32 word \<Rightarrow> state \<Rightarrow> state" where
  "update_shiftreg_buffer val s =
     (let u1_val = (ucast (drop_bit 16 (val AND 0xFF0000)) :: 8 word);
          u2_val = (ucast (drop_bit 8 (val AND 0x00FF00)) :: 8 word);
          u3_val = (ucast (val AND 0x0000FF) :: 8 word)
      in s\<lparr>shiftreg_buffer := (shiftreg_buffer s)[U3 := u3_val, U2 := u2_val, U1 := u1_val]\<rparr>)"

definition buffer_bitmask :: "state \<Rightarrow> 32 word" where
  "buffer_bitmask s =
     push_bit 16 (ucast (shiftreg_buffer s ! U1))
       OR push_bit 8 (ucast (shiftreg_buffer s ! U2))
       OR ucast (shiftreg_buffer s ! U3)"

definition set_pin :: "32 word \<Rightarrow> state \<Rightarrow> state" where
  "set_pin pins s =
     (let bitmask = buffer_bitmask s;
          data = bitmask OR pins
      in buffer_to_SPI (update_shiftreg_buffer data s))"

definition clear_pin :: "32 word \<Rightarrow> state \<Rightarrow> state" where
  "clear_pin pins s =
     (let bitmask = buffer_bitmask s;
          data = bitmask AND NOT pins
      in buffer_to_SPI (update_shiftreg_buffer data s))"

definition toggle_pedestrian :: "8 word \<Rightarrow> state \<Rightarrow> state" where
  "toggle_pedestrian crosswalk s =
     (let s1 = (if crosswalk = 1 then s\<lparr>toggle_pedestrian_pin := PL1_Blue\<rparr>
                else s\<lparr>toggle_pedestrian_pin := PL2_Blue\<rparr>);
          s2 = (if toggle_pedestrian_toggle s1 then clear_pin (toggle_pedestrian_pin s1) s1
                else set_pin (toggle_pedestrian_pin s1) s1)
      in s2\<lparr>toggle_pedestrian_toggle := \<not> toggle_pedestrian_toggle s2\<rparr>)"

definition go_pedestrian :: "8 word \<Rightarrow> state \<Rightarrow> state" where
  "go_pedestrian crosswalk s =
     (if crosswalk = 1 \<or> crosswalk = 2 then
        let s1 = (if crosswalk = 1 then
                    draw_string 0 8 ''     cross lane 1!''
                      (draw_string 0 0 ''Pedestrians can    ''
                        (s\<lparr>go_pedestrian_pin_red := PL1_Red, go_pedestrian_pin_green := PL1_Green,
                           crosswalk1_green := True, crosswalk1_red := False\<rparr>))
                  else
                    draw_string 0 8 ''     cross lane 2!''
                      (draw_string 0 0 ''Pedestrians can    ''
                        (s\<lparr>go_pedestrian_pin_red := PL2_Red, go_pedestrian_pin_green := PL2_Green,
                           crosswalk2_green := True, crosswalk2_red := False\<rparr>)));
            s2 = clear_pin (go_pedestrian_pin_red s1) s1;
            s3 = set_pin (go_pedestrian_pin_green s2) s2
        in if PL1_SW_HIT s3 \<or> PL2_SW_HIT s3 then HAL_TIM_Base_Start_IT TIM5 s3 else s3
      else s)"

definition stop_pedestrian :: "8 word \<Rightarrow> state \<Rightarrow> state" where
  "stop_pedestrian crosswalk s =
     (if crosswalk = 1 \<or> crosswalk = 2 then
        let s1 = (if crosswalk = 1 then
                    draw_string 0 8 ''     cross lane 1..''
                      (draw_string 0 0 ''Pedestrians cannot ''
                        (s\<lparr>stop_pedestrian_pin_green := PL1_Green, stop_pedestrian_pin_red := PL1_Red,
                           crosswalk1_green := False, crosswalk1_red := True\<rparr>))
                  else
                    draw_string 0 8 ''     cross lane 2..''
                      (draw_string 0 0 ''Pedestrians cannot ''
                        (s\<lparr>stop_pedestrian_pin_green := PL2_Green, stop_pedestrian_pin_red := PL2_Red,
                           crosswalk2_green := False, crosswalk2_red := True\<rparr>)));
            s2 = clear_pin (stop_pedestrian_pin_green s1) s1
        in set_pin (stop_pedestrian_pin_red s2) s2
      else s)"

text \<open>
  \<open>go_intersection\<close>: the static \<open>stage\<close> is a \<open>bool\<close>; the block for stage 0
  returns on every path, so the block for stage 1 runs exactly when the flag is set.
  The masks are assigned in stage 0 only, and only for the identifiers 1 and 2; the flag
  assignments of both stages test \<open>intersection == 1\<close> and take the other branch for
  every other value.
\<close>

definition go_intersection :: "8 word \<Rightarrow> state \<Rightarrow> state" where
  "go_intersection intersection s =
     (if \<not> go_intersection_stage s then
        (if intersection = 1 \<or> intersection = 2 then
           let s1 = (if intersection = 1 then
                       s\<lparr>go_intersection_greens := TL1_Green OR TL3_Green,
                         go_intersection_yellows := TL1_Yellow OR TL3_Yellow,
                         go_intersection_reds := TL1_Red OR TL3_Red\<rparr>
                     else
                       s\<lparr>go_intersection_greens := TL2_Green OR TL4_Green,
                         go_intersection_yellows := TL2_Yellow OR TL4_Yellow,
                         go_intersection_reds := TL2_Red OR TL4_Red\<rparr>)
           in if counter_reached TIM4 TIMER_2s s1 then
                let s2 = HAL_TIM_Base_Stop TIM4 s1;
                    s3 = HAL_TIM_SetCounter TIM4 0 s2;
                    s4 = clear_pin (go_intersection_reds s3) s3;
                    s5 = set_pin (go_intersection_yellows s4) s4;
                    s6 = HAL_TIM_Base_Start TIM4 s5;
                    s7 = (if intersection = 1 then s6\<lparr>intersection1_red := False\<rparr>
                          else s6\<lparr>intersection2_red := False\<rparr>)
                in s7\<lparr>go_intersection_stage := True\<rparr>
              else s1
         else s)
      else
        (if counter_reached TIM4 orange_Delay s then
           let s2 = HAL_TIM_Base_Stop TIM4 s;
               s3 = HAL_TIM_SetCounter TIM4 0 s2;
               s4 = clear_pin (go_intersection_yellows s3) s3;
               s5 = set_pin (go_intersection_greens s4) s4;
               s6 = (if intersection = 1 then s5\<lparr>intersection1_green := True\<rparr>
                     else s5\<lparr>intersection2_green := True\<rparr>)
           in s6\<lparr>go_intersection_stage := False\<rparr>
         else s))"

definition stop_intersection :: "8 word \<Rightarrow> state \<Rightarrow> state" where
  "stop_intersection intersection s =
     (if \<not> stop_intersection_stage s then
        (if intersection = 1 \<or> intersection = 2 then
           let s1 = (if intersection = 1 then
                       s\<lparr>stop_intersection_greens := TL1_Green OR TL3_Green,
                         stop_intersection_yellows := TL1_Yellow OR TL3_Yellow,
                         stop_intersection_reds := TL1_Red OR TL3_Red\<rparr>
                     else
                       s\<lparr>stop_intersection_greens := TL2_Green OR TL4_Green,
                         stop_intersection_yellows := TL2_Yellow OR TL4_Yellow,
                         stop_intersection_reds := TL2_Red OR TL4_Red\<rparr>)
           in if counter_reached TIM4 TIMER_2s s1 then
                let s2 = HAL_TIM_Base_Stop TIM4 s1;
                    s3 = HAL_TIM_SetCounter TIM4 0 s2;
                    s4 = clear_pin (stop_intersection_greens s3) s3;
                    s5 = set_pin (stop_intersection_yellows s4) s4;
                    s6 = HAL_TIM_Base_Start TIM4 s5;
                    s7 = (if intersection = 1 then s6\<lparr>intersection1_green := False\<rparr>
                          else s6\<lparr>intersection2_green := False\<rparr>)
                in s7\<lparr>stop_intersection_stage := True\<rparr>
              else s1
         else s)
      else
        (if counter_reached TIM4 orange_Delay s then
           let s2 = HAL_TIM_Base_Stop TIM4 s;
               s3 = HAL_TIM_SetCounter TIM4 0 s2;
               s4 = clear_pin (stop_intersection_yellows s3) s3;
               s5 = set_pin (stop_intersection_reds s4) s4;
               s6 = HAL_TIM_Base_Start TIM4 s5;
               s7 = (if intersection = 1 then s6\<lparr>intersection1_red := True\<rparr>
                     else s6\<lparr>intersection2_red := True\<rparr>)
           in s7\<lparr>stop_intersection_stage := False\<rparr>
         else s))"

subsection \<open>traffic_functions.c\<close>

definition stop_and_resetTimer :: "tim \<Rightarrow> state \<Rightarrow> state" where
  "stop_and_resetTimer htim_x s = HAL_TIM_SetCounter htim_x 0 (HAL_TIM_Base_Stop htim_x s)"

definition no_active_cars :: "state \<Rightarrow> bool" where
  "no_active_cars s =
     (if \<not> car1_active s \<and> \<not> car2_active s \<and> \<not> car3_active s \<and> \<not> car4_active s
      then True else False)"

text \<open>
  \<open>active_cars_at\<close> is declared \<open>bool\<close>.  \<open>active_cars_at_value\<close> is the value of
  the expression of the \<open>return\<close> statement that is reached; the conversion to
  \<open>_Bool\<close> at the return makes every non-zero value \<open>true\<close>.
\<close>

definition active_cars_at_value :: "8 word \<Rightarrow> state \<Rightarrow> int" where
  "active_cars_at_value intersection s =
     (if intersection = 1 then (if car1_active s \<or> car3_active s then 1 else 0)
      else if intersection = 2 then (if car2_active s \<or> car4_active s then 1 else 0)
      else - 1)"

definition active_cars_at :: "8 word \<Rightarrow> state \<Rightarrow> bool" where
  "active_cars_at intersection s = (active_cars_at_value intersection s \<noteq> 0)"


text \<open>
  \<open>init_program\<close>: the initialisation of the display (\<open>init_OLED\<close>,
  \<open>clear_screen\<close>) and the reset pulse of the shift registers
  (\<open>reset_595register\<close>) act on the display and on GPIO pins only, which the state
  does not hold; they are left out.
\<close>

definition init_program :: "state \<Rightarrow> state" where
  "init_program s =
     (let s1 = buffer_to_SPI (update_shiftreg_buffer init_state s);
          s2 = HAL_TIM_CLEAR_FLAG TIM5 (HAL_TIM_SetCounter TIM5 0 s1);
          s3 = draw_string 0 0 ''No pedestrian'' s2;
          s4 = draw_string 0 8 ''       is waiting..'' s3;
          s5 = draw_string 0 31 ''Car1 inactive'' s4;
          s6 = draw_string 0 39 ''Car2 inactive'' s5;
          s7 = draw_string 0 47 ''Car3 inactive'' s6
      in draw_string 0 55 ''Car4 inactive'' s7)"

subsection \<open>clock.c: the interrupt callbacks\<close>

text \<open>
  \<open>HAL_GPIO_EXTI_Callback\<close>: \<open>level\<close> is what \<open>HAL_GPIO_ReadPin\<close> returns for the
  line that raised the interrupt (\<open>True\<close> for \<open>GPIO_PIN_SET\<close>); the car sensors are
  active low.  The \<open>switch\<close> has no default: any other pin changes nothing.
\<close>

definition HAL_GPIO_EXTI_Callback :: "16 word \<Rightarrow> bool \<Rightarrow> state \<Rightarrow> state" where
  "HAL_GPIO_EXTI_Callback GPIO_Pin level s =
     (if GPIO_Pin = PL1_Switch_Pin then
        (if \<not> PL1_SW_HIT s \<and> crosswalk1_red s then
           let s1 = s\<lparr>PL1_SW_HIT := True\<rparr>;
               s2 = draw_string 0 0 ''Pedestrian1        '' s1;
               s3 = draw_string 0 8 ''   wants to cross..'' s2;
               s4 = HAL_TIM_Base_Start_IT TIM3 s3
           in HAL_TIM_Base_Start TIM4 s4
         else s)
      else if GPIO_Pin = PL2_Switch_Pin then
        (if \<not> PL2_SW_HIT s \<and> crosswalk2_red s then
           let s1 = s\<lparr>PL2_SW_HIT := True\<rparr>;
               s2 = draw_string 0 0 ''Pedestrian2        '' s1;
               s3 = draw_string 0 8 ''   wants to cross..'' s2;
               s4 = HAL_TIM_Base_Start_IT TIM3 s3
           in HAL_TIM_Base_Start TIM4 s4
         else s)
      else if GPIO_Pin = TL1_Car_Pin then
        (if \<not> level then draw_string 0 31 ''Car1 active  '' (s\<lparr>car1_active := True\<rparr>)
         else draw_string 0 31 ''Car1 inactive'' (s\<lparr>car1_active := False\<rparr>))
      else if GPIO_Pin = TL2_Car_Pin then
        (if \<not> level then draw_string 0 39 ''Car2 active  '' (s\<lparr>car2_active := True\<rparr>)
         else draw_string 0 39 ''Car2 inactive'' (s\<lparr>car2_active := False\<rparr>))
      else if GPIO_Pin = TL3_Car_Pin then
        (if \<not> level then draw_string 0 47 ''Car3 active  '' (s\<lparr>car3_active := True\<rparr>)
         else draw_string 0 47 ''Car3 inactive'' (s\<lparr>car3_active := False\<rparr>))
      else if GPIO_Pin = TL4_Car_Pin then
        (if \<not> level then draw_string 0 55 ''Car4 active  '' (s\<lparr>car4_active := True\<rparr>)
         else draw_string 0 55 ''Car4 inactive'' (s\<lparr>car4_active := False\<rparr>))
      else s)"

text \<open>
  \<open>HAL_TIM_PeriodElapsedCallback\<close>, split at its two \<open>if (htim->Instance == ...)\<close>
  blocks.  The TIM3 block returns from its first three branches; its fourth branch and
  the case that none applies go on to the TIM5 test, which is then false.
\<close>

definition PeriodElapsed_TIM3 :: "state \<Rightarrow> state" where
  "PeriodElapsed_TIM3 s =
     (if PL1_SW_HIT s \<and> crosswalk1_red s then toggle_pedestrian 1 s
      else if PL2_SW_HIT s \<and> crosswalk2_red s then toggle_pedestrian 2 s
      else if PL1_SW_HIT s \<and> crosswalk1_green s then
        let s1 = clear_pin PL1_Blue s;
            s2 = s1\<lparr>PL1_SW_HIT := False\<rparr>;
            s3 = HAL_TIM_SetCounter TIM3 0 s2;
            s4 = HAL_TIM_CLEAR_FLAG TIM3 s3
        in HAL_TIM_Base_Stop_IT TIM3 s4
      else if PL2_SW_HIT s \<and> crosswalk2_green s then
        let s1 = clear_pin PL2_Blue s;
            s2 = s1\<lparr>PL2_SW_HIT := False\<rparr>;
            s3 = HAL_TIM_SetCounter TIM3 0 s2;
            s4 = HAL_TIM_CLEAR_FLAG TIM3 s3
        in HAL_TIM_Base_Stop_IT TIM3 s4
      else s)"

definition PeriodElapsed_TIM5 :: "state \<Rightarrow> state" where
  "PeriodElapsed_TIM5 s =
     (if crosswalk1_green s \<and> intersection1_green s then
        let s1 = stop_pedestrian 1 s;
            s2 = HAL_TIM_Base_Stop_IT TIM5 s1;
            s3 = HAL_TIM_SetCounter TIM5 0 s2
        in HAL_TIM_CLEAR_FLAG TIM5 s3
      else if crosswalk2_green s \<and> intersection2_green s then
        let s1 = stop_pedestrian 2 s;
            s2 = HAL_TIM_Base_Stop_IT TIM5 s1;
            s3 = HAL_TIM_SetCounter TIM5 0 s2
        in HAL_TIM_CLEAR_FLAG TIM5 s3
      else s)"

definition HAL_TIM_PeriodElapsedCallback :: "tim \<Rightarrow> state \<Rightarrow> state" where
  "HAL_TIM_PeriodElapsedCallback htim s =
     (if htim = TIM3 then PeriodElapsed_TIM3 s
      else if htim = TIM5 then PeriodElapsed_TIM5 s
      else s)"

subsection \<open>traffic.c: the polling state machine\<close>

text \<open>
  One pass through the body of \<open>while (1)\<close>.  The \<open>switch\<close> has C semantics: a
  \<open>case\<close> block that ends without executing \<open>break\<close> falls through into the
  next one.  Each piece of a \<open>case\<close> block returns \<open>Break\<close> when it executed
  \<open>break\<close>, and \<open>Continue\<close> when control goes on to the statement after it.
\<close>

datatype ctl = Break | Continue

definition seq :: "(state \<Rightarrow> ctl \<times> state) \<Rightarrow> (state \<Rightarrow> ctl \<times> state) \<Rightarrow> state \<Rightarrow> ctl \<times> state" where
  "seq f g s = (case f s of (Break, s') \<Rightarrow> (Break, s') | (Continue, s') \<Rightarrow> g s')"

definition Intersection1_stage0 :: "state \<Rightarrow> ctl \<times> state" where
  "Intersection1_stage0 s =
     (if Intersection1_stage s = 0 then
        (if intersection1_green s then (Break, s\<lparr>Intersection1_stage := 1\<rparr>)
         else
           let s1 = (if \<not> intersection2_red s then stop_intersection 2 s else s)
           in if intersection2_red s1 \<and> counter_reached TIM4 pedestrian_Delay s1 then
                let s2 = stop_and_resetTimer TIM4 s1;
                    s3 = stop_pedestrian 1 s2;
                    s4 = go_pedestrian 2 s3;
                    s5 = HAL_TIM_Base_Start TIM4 s4
                in (Continue, s5\<lparr>Intersection1_stage := 1\<rparr>)
              else (Break, s1))
      else (Continue, s))"

definition Intersection1_stage1 :: "state \<Rightarrow> ctl \<times> state" where
  "Intersection1_stage1 s =
     (if Intersection1_stage s = 1 \<and> crosswalk1_red s then
        (if \<not> intersection1_green s then (Break, go_intersection 1 s)
         else if intersection1_green s then
           (Break, (stop_and_resetTimer TIM4 s)\<lparr>Intersection1_stage := 2\<rparr>)
         else (Break, s))
      else (Continue, s))"

definition Intersection1_stage2 :: "state \<Rightarrow> ctl \<times> state" where
  "Intersection1_stage2 s =
     (if Intersection1_stage s = 2 then
        (if PL1_SW_HIT s then
           (Break, s\<lparr>NextState := Intersection2, Intersection1_stage := 0\<rparr>)
         else if no_active_cars s then
           (Break, HAL_TIM_Base_Start TIM15 (s\<lparr>NextState := Wait30s, Intersection1_stage := 0\<rparr>))
         else if active_cars_at 1 s then
           (if active_cars_at 2 s then
              (Break, HAL_TIM_Base_Start TIM15 (s\<lparr>NextState := Wait20s, Intersection1_stage := 0\<rparr>))
            else (Break, s\<lparr>Intersection1_stage := 2\<rparr>))
         else if \<not> active_cars_at 1 s \<and> active_cars_at 2 s then
           (Break, HAL_TIM_Base_Start TIM4 (s\<lparr>NextState := Intersection2, Intersection1_stage := 0\<rparr>))
         else (Break, s\<lparr>NextState := Intersection1, Intersection1_stage := 2\<rparr>))
      else (Continue, s))"

definition case_Intersection1 :: "state \<Rightarrow> ctl \<times> state" where
  "case_Intersection1 = seq Intersection1_stage0 (seq Intersection1_stage1 Intersection1_stage2)"

definition Intersection2_stage0 :: "state \<Rightarrow> ctl \<times> state" where
  "Intersection2_stage0 s =
     (if Intersection2_stage s = 0 then
        (if intersection2_green s then (Break, s\<lparr>Intersection2_stage := 1\<rparr>)
         else
           let s1 = (if \<not> intersection1_red s then stop_intersection 1 s else s)
           in if intersection1_red s1 \<and> counter_reached TIM4 pedestrian_Delay s1 then
                let s2 = stop_and_resetTimer TIM4 s1;
                    s3 = stop_pedestrian 2 s2;
                    s4 = go_pedestrian 1 s3;
                    s5 = HAL_TIM_Base_Start TIM4 s4
                in (Continue, s5\<lparr>Intersection2_stage := 1\<rparr>)
              else (Break, s1))
      else (Continue, s))"

definition Intersection2_stage1 :: "state \<Rightarrow> ctl \<times> state" where
  "Intersection2_stage1 s =
     (if Intersection2_stage s = 1 \<and> crosswalk2_red s then
        (if \<not> intersection2_green s then (Break, go_intersection 2 s)
         else if intersection2_green s then
           (Break, (stop_and_resetTimer TIM4 s)\<lparr>Intersection2_stage := 2\<rparr>)
         else (Break, s))
      else (Continue, s))"

definition Intersection2_stage2 :: "state \<Rightarrow> ctl \<times> state" where
  "Intersection2_stage2 s =
     (if Intersection2_stage s = 2 then
        (if PL2_SW_HIT s then
           (Break, s\<lparr>NextState := Intersection1, Intersection2_stage := 0\<rparr>)
         else if no_active_cars s then
           (Break, HAL_TIM_Base_Start TIM15 (s\<lparr>NextState := Wait30s, Intersection2_stage := 0\<rparr>))
         else if active_cars_at 2 s then
           (if active_cars_at 1 s then
              (Break, HAL_TIM_Base_Start TIM15 (s\<lparr>NextState := Wait20s, Intersection2_stage := 0\<rparr>))
            else (Break, s\<lparr>Intersection2_stage := 2\<rparr>))
         else if \<not> active_cars_at 2 s \<and> active_cars_at 1 s then
           (Break, HAL_TIM_Base_Start TIM4 (s\<lparr>NextState := Intersection1, Intersection2_stage := 0\<rparr>))
         else (Break, s\<lparr>NextState := Intersection2, Intersection2_stage := 2\<rparr>))
      else (Continue, s))"

definition case_Intersection2 :: "state \<Rightarrow> ctl \<times> state" where
  "case_Intersection2 = seq Intersection2_stage0 (seq Intersection2_stage1 Intersection2_stage2)"

definition case_Wait20s :: "state \<Rightarrow> ctl \<times> state" where
  "case_Wait20s s =
     (if PL1_SW_HIT s \<and> intersection1_green s then
        (Break, (stop_and_resetTimer TIM15 s)\<lparr>NextState := Intersection2\<rparr>)
      else if PL2_SW_HIT s \<and> intersection2_green s then
        (Break, (stop_and_resetTimer TIM15 s)\<lparr>NextState := Intersection1\<rparr>)
      else if counter_reached TIM15 red_delay_Max s then
        let s1 = stop_and_resetTimer TIM15 s
        in if intersection1_green s1 then
             (Break, HAL_TIM_Base_Start TIM4 (s1\<lparr>NextState := Intersection2\<rparr>))
           else if intersection2_green s1 then
             (Break, HAL_TIM_Base_Start TIM4 (s1\<lparr>NextState := Intersection1\<rparr>))
           else (Break, s1)
      else (Break, s\<lparr>NextState := Wait20s\<rparr>))"

definition Wait30s_cars :: "state \<Rightarrow> ctl \<times> state" where
  "Wait30s_cars s =
     (if \<not> no_active_cars s then
        let s1 = stop_and_resetTimer TIM15 s
        in if intersection1_green s1 then (Break, s1\<lparr>NextState := Intersection1\<rparr>)
           else if intersection2_green s1 then (Break, s1\<lparr>NextState := Intersection2\<rparr>)
           else (Continue, s1)
      else (Continue, s))"

definition Wait30s_rest :: "state \<Rightarrow> ctl \<times> state" where
  "Wait30s_rest s =
     (if PL1_SW_HIT s \<and> intersection1_green s then
        (Break, (stop_and_resetTimer TIM15 s)\<lparr>NextState := Intersection2\<rparr>)
      else if PL2_SW_HIT s \<and> intersection2_green s then
        (Break, (stop_and_resetTimer TIM15 s)\<lparr>NextState := Intersection1\<rparr>)
      else if counter_reached TIM15 green_Delay s then
        let s1 = stop_and_resetTimer TIM15 s
        in if intersection1_green s1 then
             (Break, HAL_TIM_Base_Start TIM4 (s1\<lparr>NextState := Intersection2\<rparr>))
           else if intersection2_green s1 then
             (Break, HAL_TIM_Base_Start TIM4 (s1\<lparr>NextState := Intersection1\<rparr>))
           else (Break, s1)
      else (Break, s\<lparr>NextState := Wait30s\<rparr>))"

definition case_Wait30s :: "state \<Rightarrow> ctl \<times> state" where
  "case_Wait30s = seq Wait30s_cars Wait30s_rest"

definition Traffic_iteration :: "state \<Rightarrow> state" where
  "Traffic_iteration s =
     (let s0 = s\<lparr>State := NextState s\<rparr>
      in case State s0 of
           Intersection1 \<Rightarrow>
             snd (seq case_Intersection1 (seq case_Intersection2 case_Wait20s) s0)
         | Intersection2 \<Rightarrow> snd (seq case_Intersection2 case_Wait20s s0)
         | Wait20s \<Rightarrow> snd (case_Wait20s s0)
         | Wait30s \<Rightarrow> snd (case_Wait30s s0))"

text \<open>
  The memory image at reset: the initialisers of the globals, zero for every static
  without one (\<open>Intersection1\<close> is the enumerator 0), and the timers as the generated
  \<open>MX_TIMx_Init\<close> leaves them, stopped at zero.
\<close>

definition reset_timer :: timer where
  "reset_timer = \<lparr>cnt = 0, enabled = False, update_irq = False, update_flag = False\<rparr>"

definition power_on :: state where
  "power_on =
     \<lparr>shiftreg_buffer = [0x00, 0x00, 0x00], spi_out = [], oled_log = [],
      crosswalk1_green = True, crosswalk1_red = False,
      crosswalk2_green = False, crosswalk2_red = True,
      PL1_SW_HIT = False, PL2_SW_HIT = False,
      intersection1_green = False, intersection1_red = True,
      intersection2_green = True, intersection2_red = False,
      car1_active = False, car2_active = False, car3_active = False, car4_active = False,
      timers = (\<lambda>h. reset_timer),
      toggle_pedestrian_pin = 0, toggle_pedestrian_toggle = False,
      go_pedestrian_pin_red = 0, go_pedestrian_pin_green = 0,
      stop_pedestrian_pin_green = 0, stop_pedestrian_pin_red = 0,
      go_intersection_greens = 0, go_intersection_yellows = 0, go_intersection_reds = 0,
      go_intersection_stage = False,
      stop_intersection_greens = 0, stop_intersection_yellows = 0,
      stop_intersection_reds = 0, stop_intersection_stage = False,
      State = Intersection1, NextState = Intersection1,
      Intersection1_stage = 0, Intersection2_stage = 0\<rparr>"

text \<open>The statements of \<open>Traffic\<close> before its loop.\<close>

definition Traffic_start :: state where
  "Traffic_start = (init_program power_on)\<lparr>State := Intersection2, NextState := Intersection2\<rparr>"

subsection \<open>The controller in its environment\<close>

text \<open>
  What can happen to the state: a pass of the polling loop, an edge interrupt with the
  level read back from the pin, a period-elapsed interrupt of a timer, and the timer
  hardware counting (the counter of a timer takes a new value).  Interrupts are taken
  between two passes of the loop.  Nothing restricts when an interrupt fires or what a
  counter reads, so every real schedule of the hardware is among the event sequences.
\<close>

datatype event =
    Loop_pass
  | EXTI "16 word" bool
  | Period_elapsed tim
  | Count tim "32 word"

fun step :: "event \<Rightarrow> state \<Rightarrow> state" where
  "step Loop_pass s = Traffic_iteration s"
| "step (EXTI pin level) s = HAL_GPIO_EXTI_Callback pin level s"
| "step (Period_elapsed h) s = HAL_TIM_PeriodElapsedCallback h s"
| "step (Count h v) s = HAL_TIM_SetCounter h v s"

fun run :: "event list \<Rightarrow> state \<Rightarrow> state" where
  "run [] s = s"
| "run (e # es) s = run es (step e s)"

subsection \<open>Phases of a hand-over\<close>

text \<open>
  The six combinations of the eight colour flags that occur, and the table of the
  controller's control variables (\<open>NextState\<close>, the two \<open>stage\<close> statics of
  \<open>Traffic\<close>, the \<open>stage\<close> statics of \<open>go_intersection\<close> and
  \<open>stop_intersection\<close>) with the colour combination each goes with.  A colour
  combination lists \<open>intersection1_green\<close>, \<open>intersection1_red\<close>,
  \<open>intersection2_green\<close>, \<open>intersection2_red\<close>, then the same for the crosswalks.
\<close>

datatype lights = Run1 | Run2 | Amber1 | Amber2 | AllRed_walk1 | AllRed_walk2

fun flags_of :: "lights \<Rightarrow> (bool \<times> bool \<times> bool \<times> bool) \<times> (bool \<times> bool \<times> bool \<times> bool)" where
  "flags_of Run1 = ((True, False, False, True), (False, True, True, False))"
| "flags_of Run2 = ((False, True, True, False), (True, False, False, True))"
| "flags_of Amber1 = ((False, False, False, True), (False, True, True, False))"
| "flags_of Amber2 = ((False, True, False, False), (True, False, False, True))"
| "flags_of AllRed_walk1 = ((False, True, False, True), (True, False, False, True))"
| "flags_of AllRed_walk2 = ((False, True, False, True), (False, True, True, False))"

definition controller_view :: "state \<Rightarrow> states \<times> 8 word \<times> 8 word \<times> bool \<times> bool" where
  "controller_view s =
     (NextState s, Intersection1_stage s, Intersection2_stage s,
      go_intersection_stage s, stop_intersection_stage s)"

definition lights_view :: "state \<Rightarrow> (bool \<times> bool \<times> bool \<times> bool) \<times> (bool \<times> bool \<times> bool \<times> bool)" where
  "lights_view s =
     ((intersection1_green s, intersection1_red s, intersection2_green s, intersection2_red s),
      (crosswalk1_green s, crosswalk1_red s, crosswalk2_green s, crosswalk2_red s))"

definition phases :: "((states \<times> 8 word \<times> 8 word \<times> bool \<times> bool) \<times> lights) list" where
  "phases =
     [((Intersection1, 0, 0, False, False), AllRed_walk1),
      ((Intersection1, 0, 0, False, False), Run2),
      ((Intersection1, 0, 0, False, False), Run1),
      ((Intersection1, 0, 0, False, True), Amber2),
      ((Intersection1, 1, 0, False, False), AllRed_walk2),
      ((Intersection1, 1, 0, True, False), Amber1),
      ((Intersection1, 1, 0, False, False), Run1),
      ((Intersection1, 2, 0, False, False), Run1),
      ((Intersection2, 0, 0, False, False), AllRed_walk2),
      ((Intersection2, 0, 0, False, False), Run1),
      ((Intersection2, 0, 0, False, False), Run2),
      ((Intersection2, 0, 0, False, True), Amber1),
      ((Intersection2, 0, 1, False, False), AllRed_walk1),
      ((Intersection2, 0, 1, True, False), Amber2),
      ((Intersection2, 0, 1, False, False), Run2),
      ((Intersection2, 0, 2, False, False), Run2),
      ((Wait20s, 0, 0, False, False), Run1),
      ((Wait20s, 0, 0, False, False), Run2),
      ((Wait30s, 0, 0, False, False), Run1),
      ((Wait30s, 0, 0, False, False), Run2)]"

definition in_phase :: "state \<Rightarrow> bool" where
  "in_phase s =
     ((controller_view s, lights_view s) \<in> set (map (\<lambda>(c, l). (c, flags_of l)) phases))"

text \<open>Two states agree on the controller's flags: the control variables, the colour flags,
  the request flags and the car flags.\<close>

definition same_flags :: "state \<Rightarrow> state \<Rightarrow> bool" where
  "same_flags s' s =
     (NextState s' = NextState s
      \<and> Intersection1_stage s' = Intersection1_stage s
      \<and> Intersection2_stage s' = Intersection2_stage s
      \<and> go_intersection_stage s' = go_intersection_stage s
      \<and> stop_intersection_stage s' = stop_intersection_stage s
      \<and> intersection1_green s' = intersection1_green s
      \<and> intersection1_red s' = intersection1_red s
      \<and> intersection2_green s' = intersection2_green s
      \<and> intersection2_red s' = intersection2_red s
      \<and> crosswalk1_green s' = crosswalk1_green s
      \<and> crosswalk1_red s' = crosswalk1_red s
      \<and> crosswalk2_green s' = crosswalk2_green s
      \<and> crosswalk2_red s' = crosswalk2_red s
      \<and> PL1_SW_HIT s' = PL1_SW_HIT s
      \<and> PL2_SW_HIT s' = PL2_SW_HIT s
      \<and> car1_active s' = car1_active s
      \<and> car2_active s' = car2_active s
      \<and> car3_active s' = car3_active s
      \<and> car4_active s' = car4_active s)"

subsection \<open>Concrete schedules\<close>

text \<open>
  Intersection 2 is green and in its steady state after two passes of the loop.
\<close>

definition steady_2 :: "event list" where
  "steady_2 = [Loop_pass, Loop_pass]"

text \<open>
  A car arrives at intersection 1 while nothing else is active: the controller stops
  intersection 2.  After the 2 s clearance the lights of intersection 2 turn amber.
\<close>

definition amber_2_begins :: "event list" where
  "amber_2_begins =
     steady_2 @ [EXTI TL1_Car_Pin False, Loop_pass, Count TIM4 3899, Loop_pass]"

text \<open>The amber time has just run out.\<close>

definition before_red_2 :: "event list" where
  "before_red_2 = amber_2_begins @ [Count TIM4 5899]"

text \<open>Intersection 2 goes red; after the pedestrian delay the crosswalks are swapped.\<close>

definition car_at_1 :: "event list" where
  "car_at_1 = before_red_2 @ [Loop_pass, Count TIM4 9798, Loop_pass]"

text \<open>After the 2 s clearance the lights of intersection 1 turn amber.\<close>

definition amber_1_begins :: "event list" where
  "amber_1_begins = car_at_1 @ [Count TIM4 3899, Loop_pass]"

text \<open>The amber time has just run out: the next call of \<open>go_intersection\<close> is the last.\<close>

definition before_green_1 :: "event list" where
  "before_green_1 = amber_1_begins @ [Count TIM4 5899]"

text \<open>Intersection 1 is green and in its steady state.\<close>

definition steady_1 :: "event list" where
  "steady_1 = before_green_1 @ [Loop_pass, Loop_pass]"

text \<open>
  Pedestrian 1 presses the button; the controller hands over to intersection 2:
  intersection 1 goes red and crosswalk 1 goes green, with the request still latched.
\<close>

definition request_at_1 :: "event list" where
  "request_at_1 =
     steady_1 @
     [EXTI PL1_Switch_Pin True, Loop_pass, Count TIM4 3899, Loop_pass,
      Count TIM4 5899, Loop_pass, Count TIM4 9798, Loop_pass]"

text \<open>
  The same from the start: pedestrian 2 presses the button while intersection 2 is green;
  the controller hands over to intersection 1 and crosswalk 2 goes green.
\<close>

definition request_at_2 :: "event list" where
  "request_at_2 =
     steady_2 @
     [EXTI PL2_Switch_Pin True, Loop_pass, Count TIM4 3899, Loop_pass,
      Count TIM4 5899, Loop_pass, Count TIM4 9798, Loop_pass]"

text \<open>
  From the steady state of intersection 2 with no car anywhere, the next pass enters
  \<open>Wait30s\<close>; with a car at intersection 1 and a car at intersection 2 it enters
  \<open>Wait20s\<close>.
\<close>

definition enter_wait30 :: "event list" where
  "enter_wait30 = steady_2 @ [Loop_pass]"

definition enter_wait20 :: "event list" where
  "enter_wait20 = steady_2 @ [EXTI TL1_Car_Pin False, EXTI TL2_Car_Pin False, Loop_pass]"

text \<open>The states these schedules lead to.\<close>

definition green_2 :: state where "green_2 = run steady_2 Traffic_start"
definition amber_2_early :: state where "amber_2_early = run amber_2_begins Traffic_start"
definition amber_2 :: state where "amber_2 = run before_red_2 Traffic_start"
definition walk_2 :: state where "walk_2 = run car_at_1 Traffic_start"
definition amber_1_early :: state where "amber_1_early = run amber_1_begins Traffic_start"
definition amber_1 :: state where "amber_1 = run before_green_1 Traffic_start"
definition green_1 :: state where "green_1 = run steady_1 Traffic_start"
definition walk_1_served :: state where "walk_1_served = run request_at_1 Traffic_start"
definition walk_2_served :: state where "walk_2_served = run request_at_2 Traffic_start"
definition in_wait30 :: state where "in_wait30 = run enter_wait30 Traffic_start"
definition in_wait20 :: state where "in_wait20 = run enter_wait20 Traffic_start"

section \<open>Properties\<close>

lemmas light_masks =
  TL1_Red_def TL1_Yellow_def TL1_Green_def PL1_Red_def PL1_Green_def PL1_Blue_def
  TL2_Red_def TL2_Yellow_def TL2_Green_def PL2_Red_def PL2_Green_def PL2_Blue_def
  TL3_Red_def TL3_Yellow_def TL3_Green_def TL4_Red_def TL4_Yellow_def TL4_Green_def

lemmas exti_pins =
  TL1_Car_Pin_def TL2_Car_Pin_def TL3_Car_Pin_def TL4_Car_Pin_def
  PL1_Switch_Pin_def PL2_Switch_Pin_def

lemmas timer_consts =
  TIMER_2s_def TIMER_5s_def orange_Delay_def pedestrian_Delay_def transition_Time_def
  red_delay_Max_def green_Delay_def

lemmas hal_tim =
  HAL_TIM_Base_Start_def HAL_TIM_Base_Stop_def HAL_TIM_Base_Start_IT_def
  HAL_TIM_Base_Stop_IT_def HAL_TIM_SetCounter_def HAL_TIM_GetCounter_def
  HAL_TIM_CLEAR_FLAG_def

lemmas traffic_defs =
  Traffic_iteration_def seq_def case_Intersection1_def case_Intersection2_def
  case_Wait20s_def case_Wait30s_def Wait30s_cars_def Wait30s_rest_def
  Intersection1_stage0_def Intersection1_stage1_def Intersection1_stage2_def
  Intersection2_stage0_def Intersection2_stage1_def Intersection2_stage2_def

lemmas driver_defs =
  set_pin_def clear_pin_def buffer_to_SPI_def update_shiftreg_buffer_def buffer_bitmask_def
  draw_string_def toggle_pedestrian_def go_pedestrian_def stop_pedestrian_def
  go_intersection_def stop_intersection_def stop_and_resetTimer_def
  no_active_cars_def active_cars_at_def active_cars_at_value_def counter_reached_def
  U1_def U2_def U3_def

lemmas callback_defs =
  HAL_GPIO_EXTI_Callback_def HAL_TIM_PeriodElapsedCallback_def PeriodElapsed_TIM3_def
  PeriodElapsed_TIM5_def

lemmas start_defs =
  Traffic_start_def init_program_def power_on_def reset_timer_def init_state_def

text \<open>Everything needed to run the model on a concrete schedule.\<close>

lemmas run_defs =
  start_defs light_masks exti_pins timer_consts driver_defs hal_tim traffic_defs callback_defs
  Let_def

lemmas view_defs = in_phase_def phases_def controller_view_def lights_view_def

lemmas schedule_defs =
  steady_2_def amber_2_begins_def before_red_2_def car_at_1_def amber_1_begins_def
  before_green_1_def steady_1_def request_at_1_def request_at_2_def
  enter_wait30_def enter_wait20_def

subsection \<open>What each operation does to the flags\<close>

lemma same_flagsD:
  assumes "same_flags s' s"
  shows "NextState s' = NextState s"
    and "Intersection1_stage s' = Intersection1_stage s"
    and "Intersection2_stage s' = Intersection2_stage s"
    and "go_intersection_stage s' = go_intersection_stage s"
    and "stop_intersection_stage s' = stop_intersection_stage s"
    and "intersection1_green s' = intersection1_green s"
    and "intersection1_red s' = intersection1_red s"
    and "intersection2_green s' = intersection2_green s"
    and "intersection2_red s' = intersection2_red s"
    and "crosswalk1_green s' = crosswalk1_green s"
    and "crosswalk1_red s' = crosswalk1_red s"
    and "crosswalk2_green s' = crosswalk2_green s"
    and "crosswalk2_red s' = crosswalk2_red s"
    and "PL1_SW_HIT s' = PL1_SW_HIT s"
    and "PL2_SW_HIT s' = PL2_SW_HIT s"
    and "car1_active s' = car1_active s"
    and "car2_active s' = car2_active s"
    and "car3_active s' = car3_active s"
    and "car4_active s' = car4_active s"
  using assms by (simp_all add: same_flags_def)

lemma set_pin_same: "same_flags (set_pin p s) s"
  by (simp add: same_flags_def set_pin_def buffer_to_SPI_def update_shiftreg_buffer_def Let_def)

lemmas set_pin_flags [simp] = same_flagsD [OF set_pin_same]

lemma clear_pin_same: "same_flags (clear_pin p s) s"
  by (simp add: same_flags_def clear_pin_def buffer_to_SPI_def update_shiftreg_buffer_def Let_def)

lemmas clear_pin_flags [simp] = same_flagsD [OF clear_pin_same]

lemma draw_string_same: "same_flags (draw_string x y str s) s"
  by (simp add: same_flags_def draw_string_def)

lemmas draw_string_flags [simp] = same_flagsD [OF draw_string_same]

lemma HAL_TIM_Base_Start_same: "same_flags (HAL_TIM_Base_Start h s) s"
  by (simp add: same_flags_def hal_tim)

lemmas HAL_TIM_Base_Start_flags [simp] = same_flagsD [OF HAL_TIM_Base_Start_same]

lemma HAL_TIM_Base_Stop_same: "same_flags (HAL_TIM_Base_Stop h s) s"
  by (simp add: same_flags_def hal_tim)

lemmas HAL_TIM_Base_Stop_flags [simp] = same_flagsD [OF HAL_TIM_Base_Stop_same]

lemma HAL_TIM_Base_Start_IT_same: "same_flags (HAL_TIM_Base_Start_IT h s) s"
  by (simp add: same_flags_def hal_tim)

lemmas HAL_TIM_Base_Start_IT_flags [simp] = same_flagsD [OF HAL_TIM_Base_Start_IT_same]

lemma HAL_TIM_Base_Stop_IT_same: "same_flags (HAL_TIM_Base_Stop_IT h s) s"
  by (simp add: same_flags_def hal_tim)

lemmas HAL_TIM_Base_Stop_IT_flags [simp] = same_flagsD [OF HAL_TIM_Base_Stop_IT_same]

lemma HAL_TIM_SetCounter_same: "same_flags (HAL_TIM_SetCounter h v s) s"
  by (simp add: same_flags_def hal_tim)

lemmas HAL_TIM_SetCounter_flags [simp] = same_flagsD [OF HAL_TIM_SetCounter_same]

lemma HAL_TIM_CLEAR_FLAG_same: "same_flags (HAL_TIM_CLEAR_FLAG h s) s"
  by (simp add: same_flags_def hal_tim)

lemmas HAL_TIM_CLEAR_FLAG_flags [simp] = same_flagsD [OF HAL_TIM_CLEAR_FLAG_same]

lemma stop_and_resetTimer_same: "same_flags (stop_and_resetTimer h s) s"
  by (simp add: same_flags_def stop_and_resetTimer_def hal_tim)

lemmas stop_and_resetTimer_flags [simp] = same_flagsD [OF stop_and_resetTimer_same]

lemma toggle_pedestrian_same: "same_flags (toggle_pedestrian k s) s"
  by (simp add: same_flags_def toggle_pedestrian_def Let_def)

lemmas toggle_pedestrian_flags [simp] = same_flagsD [OF toggle_pedestrian_same]

lemma go_pedestrian_flags [simp]:
  "NextState (go_pedestrian k s) = NextState s"
  "Intersection1_stage (go_pedestrian k s) = Intersection1_stage s"
  "Intersection2_stage (go_pedestrian k s) = Intersection2_stage s"
  "go_intersection_stage (go_pedestrian k s) = go_intersection_stage s"
  "stop_intersection_stage (go_pedestrian k s) = stop_intersection_stage s"
  "intersection1_green (go_pedestrian k s) = intersection1_green s"
  "intersection1_red (go_pedestrian k s) = intersection1_red s"
  "intersection2_green (go_pedestrian k s) = intersection2_green s"
  "intersection2_red (go_pedestrian k s) = intersection2_red s"
  "PL1_SW_HIT (go_pedestrian k s) = PL1_SW_HIT s"
  "PL2_SW_HIT (go_pedestrian k s) = PL2_SW_HIT s"
  "car1_active (go_pedestrian k s) = car1_active s"
  "car2_active (go_pedestrian k s) = car2_active s"
  "car3_active (go_pedestrian k s) = car3_active s"
  "car4_active (go_pedestrian k s) = car4_active s"
  "crosswalk1_green (go_pedestrian k s) = (if k = 1 then True else crosswalk1_green s)"
  "crosswalk1_red (go_pedestrian k s) = (if k = 1 then False else crosswalk1_red s)"
  "crosswalk2_green (go_pedestrian k s) = (if k = 2 then True else crosswalk2_green s)"
  "crosswalk2_red (go_pedestrian k s) = (if k = 2 then False else crosswalk2_red s)"
  by (simp_all add: go_pedestrian_def Let_def)

lemma stop_pedestrian_flags [simp]:
  "NextState (stop_pedestrian k s) = NextState s"
  "Intersection1_stage (stop_pedestrian k s) = Intersection1_stage s"
  "Intersection2_stage (stop_pedestrian k s) = Intersection2_stage s"
  "go_intersection_stage (stop_pedestrian k s) = go_intersection_stage s"
  "stop_intersection_stage (stop_pedestrian k s) = stop_intersection_stage s"
  "intersection1_green (stop_pedestrian k s) = intersection1_green s"
  "intersection1_red (stop_pedestrian k s) = intersection1_red s"
  "intersection2_green (stop_pedestrian k s) = intersection2_green s"
  "intersection2_red (stop_pedestrian k s) = intersection2_red s"
  "PL1_SW_HIT (stop_pedestrian k s) = PL1_SW_HIT s"
  "PL2_SW_HIT (stop_pedestrian k s) = PL2_SW_HIT s"
  "car1_active (stop_pedestrian k s) = car1_active s"
  "car2_active (stop_pedestrian k s) = car2_active s"
  "car3_active (stop_pedestrian k s) = car3_active s"
  "car4_active (stop_pedestrian k s) = car4_active s"
  "crosswalk1_green (stop_pedestrian k s) = (if k = 1 then False else crosswalk1_green s)"
  "crosswalk1_red (stop_pedestrian k s) = (if k = 1 then True else crosswalk1_red s)"
  "crosswalk2_green (stop_pedestrian k s) = (if k = 2 then False else crosswalk2_green s)"
  "crosswalk2_red (stop_pedestrian k s) = (if k = 2 then True else crosswalk2_red s)"
  by (simp_all add: stop_pedestrian_def Let_def)

lemma go_intersection_flags [simp]:
  "NextState (go_intersection k s) = NextState s"
  "Intersection1_stage (go_intersection k s) = Intersection1_stage s"
  "Intersection2_stage (go_intersection k s) = Intersection2_stage s"
  "stop_intersection_stage (go_intersection k s) = stop_intersection_stage s"
  "crosswalk1_green (go_intersection k s) = crosswalk1_green s"
  "crosswalk1_red (go_intersection k s) = crosswalk1_red s"
  "crosswalk2_green (go_intersection k s) = crosswalk2_green s"
  "crosswalk2_red (go_intersection k s) = crosswalk2_red s"
  "PL1_SW_HIT (go_intersection k s) = PL1_SW_HIT s"
  "PL2_SW_HIT (go_intersection k s) = PL2_SW_HIT s"
  "car1_active (go_intersection k s) = car1_active s"
  "car2_active (go_intersection k s) = car2_active s"
  "car3_active (go_intersection k s) = car3_active s"
  "car4_active (go_intersection k s) = car4_active s"
  "go_intersection_stage (go_intersection k s) =
     (if \<not> go_intersection_stage s \<and> (k = 1 \<or> k = 2)
         \<and> counter_reached TIM4 TIMER_2s s
      then True
      else if go_intersection_stage s \<and> counter_reached TIM4 orange_Delay s
      then False
      else go_intersection_stage s)"
  "intersection1_red (go_intersection k s) =
     (if \<not> go_intersection_stage s \<and> (k = 1 \<or> k = 2)
         \<and> counter_reached TIM4 TIMER_2s s \<and> k = 1
      then False
      else intersection1_red s)"
  "intersection1_green (go_intersection k s) =
     (if go_intersection_stage s \<and> counter_reached TIM4 orange_Delay s \<and> k = 1
      then True
      else intersection1_green s)"
  "intersection2_red (go_intersection k s) =
     (if \<not> go_intersection_stage s \<and> (k = 1 \<or> k = 2)
         \<and> counter_reached TIM4 TIMER_2s s \<and> k \<noteq> 1
      then False
      else intersection2_red s)"
  "intersection2_green (go_intersection k s) =
     (if go_intersection_stage s \<and> counter_reached TIM4 orange_Delay s \<and> k \<noteq> 1
      then True
      else intersection2_green s)"
  by (simp_all add: go_intersection_def counter_reached_def HAL_TIM_GetCounter_def Let_def)

lemma stop_intersection_flags [simp]:
  "NextState (stop_intersection k s) = NextState s"
  "Intersection1_stage (stop_intersection k s) = Intersection1_stage s"
  "Intersection2_stage (stop_intersection k s) = Intersection2_stage s"
  "go_intersection_stage (stop_intersection k s) = go_intersection_stage s"
  "crosswalk1_green (stop_intersection k s) = crosswalk1_green s"
  "crosswalk1_red (stop_intersection k s) = crosswalk1_red s"
  "crosswalk2_green (stop_intersection k s) = crosswalk2_green s"
  "crosswalk2_red (stop_intersection k s) = crosswalk2_red s"
  "PL1_SW_HIT (stop_intersection k s) = PL1_SW_HIT s"
  "PL2_SW_HIT (stop_intersection k s) = PL2_SW_HIT s"
  "car1_active (stop_intersection k s) = car1_active s"
  "car2_active (stop_intersection k s) = car2_active s"
  "car3_active (stop_intersection k s) = car3_active s"
  "car4_active (stop_intersection k s) = car4_active s"
  "stop_intersection_stage (stop_intersection k s) =
     (if \<not> stop_intersection_stage s \<and> (k = 1 \<or> k = 2)
         \<and> counter_reached TIM4 TIMER_2s s
      then True
      else if stop_intersection_stage s \<and> counter_reached TIM4 orange_Delay s
      then False
      else stop_intersection_stage s)"
  "intersection1_green (stop_intersection k s) =
     (if \<not> stop_intersection_stage s \<and> (k = 1 \<or> k = 2)
         \<and> counter_reached TIM4 TIMER_2s s \<and> k = 1
      then False
      else intersection1_green s)"
  "intersection1_red (stop_intersection k s) =
     (if stop_intersection_stage s \<and> counter_reached TIM4 orange_Delay s \<and> k = 1
      then True
      else intersection1_red s)"
  "intersection2_green (stop_intersection k s) =
     (if \<not> stop_intersection_stage s \<and> (k = 1 \<or> k = 2)
         \<and> counter_reached TIM4 TIMER_2s s \<and> k \<noteq> 1
      then False
      else intersection2_green s)"
  "intersection2_red (stop_intersection k s) =
     (if stop_intersection_stage s \<and> counter_reached TIM4 orange_Delay s \<and> k \<noteq> 1
      then True
      else intersection2_red s)"
  by (simp_all add: stop_intersection_def counter_reached_def HAL_TIM_GetCounter_def Let_def)

subsection \<open>The phase table is invariant\<close>

lemma in_phase_cong:
  assumes "controller_view s' = controller_view s" and "lights_view s' = lights_view s"
  shows "in_phase s' = in_phase s"
  using assms by (simp add: in_phase_def)

lemma in_phase_start: "in_phase Traffic_start"
  by (simp add: view_defs Traffic_start_def init_program_def Let_def
      buffer_to_SPI_def update_shiftreg_buffer_def power_on_def)

lemma in_phase_Traffic_iteration:
  assumes "in_phase s"
  shows "in_phase (Traffic_iteration s)"
  using assms unfolding in_phase_def [of s]
  apply (simp add: phases_def controller_view_def lights_view_def)
  apply (elim disjE conjE)
  apply (simp_all add: traffic_defs Let_def view_defs)
  done

lemma in_phase_EXTI: "in_phase (HAL_GPIO_EXTI_Callback pin level s) = in_phase s"
  by (rule in_phase_cong)
    (simp_all add: controller_view_def lights_view_def HAL_GPIO_EXTI_Callback_def Let_def)

lemma in_phase_TIM3: "in_phase (PeriodElapsed_TIM3 s) = in_phase s"
  by (rule in_phase_cong)
    (simp_all add: controller_view_def lights_view_def PeriodElapsed_TIM3_def Let_def)

lemma in_phase_colours:
  assumes "in_phase s"
  shows "\<not> (intersection1_green s \<and> intersection2_green s)"
    and "crosswalk1_green s \<Longrightarrow> intersection1_red s \<and> \<not> intersection1_green s"
    and "crosswalk2_green s \<Longrightarrow> intersection2_red s \<and> \<not> intersection2_green s"
    and "crosswalk1_green s = (\<not> crosswalk1_red s)"
    and "crosswalk2_green s = (\<not> crosswalk2_red s)"
  using assms by (auto simp add: view_defs)

lemma in_phase_TIM5:
  assumes "in_phase s"
  shows "PeriodElapsed_TIM5 s = s"
  using in_phase_colours(2,3) [OF assms] by (auto simp add: PeriodElapsed_TIM5_def)

lemma in_phase_step:
  assumes "in_phase s"
  shows "in_phase (step e s)"
proof (cases e)
  case Loop_pass
  with assms show ?thesis by (simp add: in_phase_Traffic_iteration)
next
  case (EXTI pin level)
  with assms show ?thesis by (simp add: in_phase_EXTI)
next
  case (Period_elapsed h)
  with assms show ?thesis
    by (simp add: HAL_TIM_PeriodElapsedCallback_def in_phase_TIM3 in_phase_TIM5)
next
  case (Count h v)
  with assms show ?thesis
    by (simp add: in_phase_cong [of "HAL_TIM_SetCounter h v s" s]
        controller_view_def lights_view_def)
qed

lemma in_phase_run: "in_phase s \<Longrightarrow> in_phase (run es s)"
  by (induction es arbitrary: s) (simp_all add: in_phase_step)

lemma in_phase_reachable: "in_phase (run es Traffic_start)"
  by (rule in_phase_run [OF in_phase_start])

lemma timers_frame [simp]:
  "timers (set_pin p s) = timers s"
  "timers (clear_pin p s) = timers s"
  "timers (draw_string x y str s) = timers s"
  "timers (toggle_pedestrian k s) = timers s"
  "timers (stop_pedestrian k s) = timers s"
  by (simp_all add: set_pin_def clear_pin_def buffer_to_SPI_def update_shiftreg_buffer_def
      draw_string_def toggle_pedestrian_def stop_pedestrian_def Let_def)

subsection \<open>The checkpoints of the concrete schedules\<close>

lemma green_2_facts:
  shows "NextState green_2 = Intersection2" and "Intersection2_stage green_2 = 2"
    and "intersection2_green green_2" and "\<not> PL2_SW_HIT green_2" and "no_active_cars green_2"
    and "\<not> stop_intersection_stage green_2" and "\<not> counter_reached TIM4 TIMER_2s green_2"
    and "crosswalk2_red green_2"
proof -
  have "let s = run steady_2 Traffic_start
        in NextState s = Intersection2 \<and> Intersection2_stage s = 2 \<and> intersection2_green s
           \<and> \<not> PL2_SW_HIT s \<and> no_active_cars s \<and> \<not> stop_intersection_stage s
           \<and> \<not> counter_reached TIM4 TIMER_2s s \<and> crosswalk2_red s"
    by (simp add: schedule_defs run_defs cong: let_weak_cong)
  then have "NextState green_2 = Intersection2 \<and> Intersection2_stage green_2 = 2
      \<and> intersection2_green green_2 \<and> \<not> PL2_SW_HIT green_2 \<and> no_active_cars green_2
      \<and> \<not> stop_intersection_stage green_2 \<and> \<not> counter_reached TIM4 TIMER_2s green_2
      \<and> crosswalk2_red green_2"
    unfolding Let_def green_2_def .
  then show "NextState green_2 = Intersection2" and "Intersection2_stage green_2 = 2"
    and "intersection2_green green_2" and "\<not> PL2_SW_HIT green_2" and "no_active_cars green_2"
    and "\<not> stop_intersection_stage green_2" and "\<not> counter_reached TIM4 TIMER_2s green_2"
    and "crosswalk2_red green_2"
    by blast+
qed

lemma amber_2_early_facts:
  "stop_intersection_stage amber_2_early \<and> \<not> counter_reached TIM4 orange_Delay amber_2_early"
proof -
  have "let s = run amber_2_begins Traffic_start
        in stop_intersection_stage s \<and> \<not> counter_reached TIM4 orange_Delay s"
    by (simp add: schedule_defs run_defs cong: let_weak_cong)
  then show ?thesis unfolding Let_def amber_2_early_def .
qed

lemma amber_2_facts:
  "stop_intersection_stage amber_2 \<and> counter_reached TIM4 orange_Delay amber_2"
proof -
  have "let s = run before_red_2 Traffic_start
        in stop_intersection_stage s \<and> counter_reached TIM4 orange_Delay s"
    by (simp add: schedule_defs run_defs cong: let_weak_cong)
  then show ?thesis unfolding Let_def amber_2_def .
qed

lemma walk_2_facts:
  shows "crosswalk2_green walk_2" and "intersection2_red walk_2"
    and "\<not> go_intersection_stage walk_2" and "\<not> counter_reached TIM4 TIMER_2s walk_2"
proof -
  have "let s = run car_at_1 Traffic_start
        in crosswalk2_green s \<and> intersection2_red s \<and> \<not> go_intersection_stage s
           \<and> \<not> counter_reached TIM4 TIMER_2s s"
    by (simp add: schedule_defs run_defs cong: let_weak_cong)
  then have "crosswalk2_green walk_2 \<and> intersection2_red walk_2
      \<and> \<not> go_intersection_stage walk_2 \<and> \<not> counter_reached TIM4 TIMER_2s walk_2"
    unfolding Let_def walk_2_def .
  then show "crosswalk2_green walk_2" and "intersection2_red walk_2"
    and "\<not> go_intersection_stage walk_2" and "\<not> counter_reached TIM4 TIMER_2s walk_2"
    by blast+
qed

lemma amber_1_early_facts:
  "go_intersection_stage amber_1_early \<and> \<not> counter_reached TIM4 orange_Delay amber_1_early"
proof -
  have "let s = run amber_1_begins Traffic_start
        in go_intersection_stage s \<and> \<not> counter_reached TIM4 orange_Delay s"
    by (simp add: schedule_defs run_defs cong: let_weak_cong)
  then show ?thesis unfolding Let_def amber_1_early_def .
qed

lemma amber_1_facts:
  shows "go_intersection_stage amber_1" and "counter_reached TIM4 orange_Delay amber_1"
    and "enabled (timers amber_1 TIM4)"
proof -
  have "let s = run before_green_1 Traffic_start
        in go_intersection_stage s \<and> counter_reached TIM4 orange_Delay s
           \<and> enabled (timers s TIM4)"
    by (simp add: schedule_defs run_defs cong: let_weak_cong)
  then have "go_intersection_stage amber_1 \<and> counter_reached TIM4 orange_Delay amber_1
      \<and> enabled (timers amber_1 TIM4)"
    unfolding Let_def amber_1_def .
  then show "go_intersection_stage amber_1" and "counter_reached TIM4 orange_Delay amber_1"
    and "enabled (timers amber_1 TIM4)"
    by blast+
qed

lemma green_1_facts:
  shows "NextState green_1 = Intersection1" and "Intersection1_stage green_1 = 2"
    and "intersection1_green green_1" and "\<not> PL1_SW_HIT green_1"
    and "\<not> no_active_cars green_1" and "active_cars_at 1 green_1"
    and "\<not> active_cars_at 2 green_1" and "crosswalk1_red green_1"
proof -
  have "let s = run steady_1 Traffic_start
        in NextState s = Intersection1 \<and> Intersection1_stage s = 2 \<and> intersection1_green s
           \<and> \<not> PL1_SW_HIT s \<and> \<not> no_active_cars s \<and> active_cars_at 1 s
           \<and> \<not> active_cars_at 2 s \<and> crosswalk1_red s"
    by (simp add: schedule_defs run_defs cong: let_weak_cong)
  then have "NextState green_1 = Intersection1 \<and> Intersection1_stage green_1 = 2
      \<and> intersection1_green green_1 \<and> \<not> PL1_SW_HIT green_1 \<and> \<not> no_active_cars green_1
      \<and> active_cars_at 1 green_1 \<and> \<not> active_cars_at 2 green_1 \<and> crosswalk1_red green_1"
    unfolding Let_def green_1_def .
  then show "NextState green_1 = Intersection1" and "Intersection1_stage green_1 = 2"
    and "intersection1_green green_1" and "\<not> PL1_SW_HIT green_1"
    and "\<not> no_active_cars green_1" and "active_cars_at 1 green_1"
    and "\<not> active_cars_at 2 green_1" and "crosswalk1_red green_1"
    by blast+
qed

lemma walk_1_served_facts:
  shows "crosswalk1_green walk_1_served" and "\<not> crosswalk1_red walk_1_served"
    and "PL1_SW_HIT walk_1_served"
    and "enabled (timers walk_1_served TIM5)" and "update_irq (timers walk_1_served TIM5)"
    and "intersection1_red walk_1_served" and "\<not> intersection1_green walk_1_served"
    and "\<not> PL2_SW_HIT walk_1_served"
proof -
  have "let s = run request_at_1 Traffic_start
        in crosswalk1_green s \<and> \<not> crosswalk1_red s \<and> PL1_SW_HIT s
           \<and> enabled (timers s TIM5) \<and> update_irq (timers s TIM5)
           \<and> intersection1_red s \<and> \<not> intersection1_green s \<and> \<not> PL2_SW_HIT s"
    by (simp add: schedule_defs run_defs cong: let_weak_cong)
  then have "crosswalk1_green walk_1_served \<and> \<not> crosswalk1_red walk_1_served
      \<and> PL1_SW_HIT walk_1_served
      \<and> enabled (timers walk_1_served TIM5) \<and> update_irq (timers walk_1_served TIM5)
      \<and> intersection1_red walk_1_served \<and> \<not> intersection1_green walk_1_served
      \<and> \<not> PL2_SW_HIT walk_1_served"
    unfolding Let_def walk_1_served_def .
  then show "crosswalk1_green walk_1_served" and "\<not> crosswalk1_red walk_1_served"
    and "PL1_SW_HIT walk_1_served"
    and "enabled (timers walk_1_served TIM5)" and "update_irq (timers walk_1_served TIM5)"
    and "intersection1_red walk_1_served" and "\<not> intersection1_green walk_1_served"
    and "\<not> PL2_SW_HIT walk_1_served"
    by blast+
qed

lemma walk_2_served_facts:
  shows "crosswalk2_green walk_2_served" and "\<not> crosswalk2_red walk_2_served"
    and "PL2_SW_HIT walk_2_served" and "\<not> PL1_SW_HIT walk_2_served"
    and "enabled (timers walk_2_served TIM5)" and "update_irq (timers walk_2_served TIM5)"
    and "intersection2_red walk_2_served" and "\<not> intersection2_green walk_2_served"
proof -
  have "let s = run request_at_2 Traffic_start
        in crosswalk2_green s \<and> \<not> crosswalk2_red s \<and> PL2_SW_HIT s \<and> \<not> PL1_SW_HIT s
           \<and> enabled (timers s TIM5) \<and> update_irq (timers s TIM5)
           \<and> intersection2_red s \<and> \<not> intersection2_green s"
    by (simp add: schedule_defs run_defs cong: let_weak_cong)
  then have "crosswalk2_green walk_2_served \<and> \<not> crosswalk2_red walk_2_served
      \<and> PL2_SW_HIT walk_2_served \<and> \<not> PL1_SW_HIT walk_2_served
      \<and> enabled (timers walk_2_served TIM5) \<and> update_irq (timers walk_2_served TIM5)
      \<and> intersection2_red walk_2_served \<and> \<not> intersection2_green walk_2_served"
    unfolding Let_def walk_2_served_def .
  then show "crosswalk2_green walk_2_served" and "\<not> crosswalk2_red walk_2_served"
    and "PL2_SW_HIT walk_2_served" and "\<not> PL1_SW_HIT walk_2_served"
    and "enabled (timers walk_2_served TIM5)" and "update_irq (timers walk_2_served TIM5)"
    and "intersection2_red walk_2_served" and "\<not> intersection2_green walk_2_served"
    by blast+
qed

subsection \<open>C1: the two intersections are never green together\<close>

text \<open>
  C1.  In every state the controller reaches from the start of \<open>Traffic\<close>
  (intersection 2 green, intersection 1 red), whatever the schedule of loop passes,
  interrupts and timer counts, the flags \<open>intersection1_green\<close> and
  \<open>intersection2_green\<close> are not both set.
\<close>

theorem green_mutual_exclusion:
  "\<not> (intersection1_green (run es Traffic_start) \<and> intersection2_green (run es Traffic_start))"
  by (rule in_phase_colours(1) [OF in_phase_reachable])

subsection \<open>C2: a crosswalk is green only while its intersection is fully red\<close>

text \<open>
  C2.  In every reachable state, \<open>crosswalk1_green\<close> implies \<open>intersection1_red\<close>
  with \<open>intersection1_green\<close> clear (red, and not in the amber stage of a
  transition), and likewise for crosswalk 2 and intersection 2.
\<close>

theorem crosswalk_green_needs_red:
  "(crosswalk1_green (run es Traffic_start) \<longrightarrow>
      intersection1_red (run es Traffic_start) \<and> \<not> intersection1_green (run es Traffic_start))
   \<and> (crosswalk2_green (run es Traffic_start) \<longrightarrow>
      intersection2_red (run es Traffic_start) \<and> \<not> intersection2_green (run es Traffic_start))"
  using in_phase_colours(2,3) [OF in_phase_reachable [of es]] by blast

theorem crosswalk_green_needs_red_witness:
  "crosswalk1_green (run [] Traffic_start)
   \<and> intersection1_red (run [] Traffic_start) \<and> \<not> intersection1_green (run [] Traffic_start)
   \<and> crosswalk2_green (run car_at_1 Traffic_start)
   \<and> intersection2_red (run car_at_1 Traffic_start)
   \<and> \<not> intersection2_green (run car_at_1 Traffic_start)"
proof -
  have walk1: "crosswalk1_green (run [] Traffic_start)"
    by (simp add: run_defs cong: let_weak_cong)
  have walk2: "crosswalk2_green (run car_at_1 Traffic_start)"
    using walk_2_facts(1) by (simp add: walk_2_def)
  from walk1 walk2 crosswalk_green_needs_red [of "[]"] crosswalk_green_needs_red [of car_at_1]
  show ?thesis by blast
qed

subsection \<open>C3: the walk timer\<close>

lemma walk_timer_never_acts:
  "HAL_TIM_PeriodElapsedCallback TIM5 (run es Traffic_start) = run es Traffic_start"
  by (simp add: HAL_TIM_PeriodElapsedCallback_def in_phase_TIM5 [OF in_phase_reachable])

text \<open>
  C3.  Once a crosswalk has gone green after a latched request, with the walk timer
  TIM5 armed by \<open>go_pedestrian\<close>, the expiry of TIM5 is to force the crosswalk back to
  red (timer_config.h: TIM5 is to turn the lights red after 15 s of being green).  The code
  does not do so.  In the state \<open>walk_1_served\<close> crosswalk 1 has just gone green for
  the latched request of pedestrian 1 and TIM5 runs with its interrupt enabled;
  intersection 1 is red, so the handler's test
  \<open>crosswalk1_green && intersection1_green\<close> fails, and so does the test for
  crosswalk 2: the expiry of TIM5 returns the state as it is, with crosswalk 1 green
  and TIM5 still running.  The same holds in \<open>walk_2_served\<close> for crosswalk 2.
\<close>

theorem walk_timer_expiry_changes_nothing:
  "crosswalk1_green walk_1_served \<and> PL1_SW_HIT walk_1_served
   \<and> enabled (timers walk_1_served TIM5) \<and> update_irq (timers walk_1_served TIM5)
   \<and> \<not> intersection1_green walk_1_served
   \<and> HAL_TIM_PeriodElapsedCallback TIM5 walk_1_served = walk_1_served
   \<and> crosswalk1_green (HAL_TIM_PeriodElapsedCallback TIM5 walk_1_served)
   \<and> crosswalk2_green walk_2_served \<and> PL2_SW_HIT walk_2_served
   \<and> enabled (timers walk_2_served TIM5) \<and> update_irq (timers walk_2_served TIM5)
   \<and> \<not> intersection2_green walk_2_served
   \<and> HAL_TIM_PeriodElapsedCallback TIM5 walk_2_served = walk_2_served
   \<and> crosswalk2_green (HAL_TIM_PeriodElapsedCallback TIM5 walk_2_served)"
proof -
  have idle1: "HAL_TIM_PeriodElapsedCallback TIM5 walk_1_served = walk_1_served"
    unfolding walk_1_served_def by (rule walk_timer_never_acts)
  have idle2: "HAL_TIM_PeriodElapsedCallback TIM5 walk_2_served = walk_2_served"
    unfolding walk_2_served_def by (rule walk_timer_never_acts)
  from walk_1_served_facts(1,3,4,5,7) walk_2_served_facts(1,3,5,6,8) idle1 idle2
  show ?thesis by simp
qed

subsection \<open>C4: the priorities of the steady state\<close>

lemma steady_state_1:
  assumes "NextState s = Intersection1" and "Intersection1_stage s = 2"
  shows "NextState (Traffic_iteration s) =
        (if PL1_SW_HIT s then Intersection2
         else if no_active_cars s then Wait30s
         else if active_cars_at 1 s \<and> active_cars_at 2 s then Wait20s
         else if \<not> active_cars_at 1 s \<and> active_cars_at 2 s then Intersection2
         else Intersection1)"
    and "\<not> PL1_SW_HIT s \<and> (no_active_cars s \<or> active_cars_at 1 s \<and> active_cars_at 2 s) \<longrightarrow>
         enabled (timers (Traffic_iteration s) TIM15)"
  using assms
  by (simp_all add: traffic_defs Let_def HAL_TIM_Base_Start_def no_active_cars_def
      active_cars_at_def active_cars_at_value_def)

lemma steady_state_2:
  assumes "NextState s = Intersection2" and "Intersection2_stage s = 2"
  shows "NextState (Traffic_iteration s) =
        (if PL2_SW_HIT s then Intersection1
         else if no_active_cars s then Wait30s
         else if active_cars_at 2 s \<and> active_cars_at 1 s then Wait20s
         else if \<not> active_cars_at 2 s \<and> active_cars_at 1 s then Intersection1
         else Intersection2)"
    and "\<not> PL2_SW_HIT s \<and> (no_active_cars s \<or> active_cars_at 2 s \<and> active_cars_at 1 s) \<longrightarrow>
         enabled (timers (Traffic_iteration s) TIM15)"
  using assms
  by (simp_all add: traffic_defs Let_def HAL_TIM_Base_Start_def no_active_cars_def
      active_cars_at_def active_cars_at_value_def)

text \<open>
  C4.  With \<open>NextState\<close> at intersection K and K's sub-stage at 2, one pass of the loop
  decides in this order: K's own request flag set gives the other intersection; else no
  car anywhere gives \<open>Wait30s\<close>; else cars at K and at the other intersection give
  \<open>Wait20s\<close>; else cars only at the other intersection give the other intersection;
  otherwise the state stays at K.  Entering \<open>Wait30s\<close> or \<open>Wait20s\<close> starts the hold
  timer TIM15.
\<close>

theorem steady_state_priorities:
  "(NextState s = Intersection1 \<and> Intersection1_stage s = 2 \<longrightarrow>
      NextState (Traffic_iteration s) =
        (if PL1_SW_HIT s then Intersection2
         else if no_active_cars s then Wait30s
         else if active_cars_at 1 s \<and> active_cars_at 2 s then Wait20s
         else if \<not> active_cars_at 1 s \<and> active_cars_at 2 s then Intersection2
         else Intersection1)
      \<and> (\<not> PL1_SW_HIT s \<and> (no_active_cars s \<or> active_cars_at 1 s \<and> active_cars_at 2 s) \<longrightarrow>
            enabled (timers (Traffic_iteration s) TIM15)))
   \<and> (NextState s = Intersection2 \<and> Intersection2_stage s = 2 \<longrightarrow>
      NextState (Traffic_iteration s) =
        (if PL2_SW_HIT s then Intersection1
         else if no_active_cars s then Wait30s
         else if active_cars_at 2 s \<and> active_cars_at 1 s then Wait20s
         else if \<not> active_cars_at 2 s \<and> active_cars_at 1 s then Intersection1
         else Intersection2)
      \<and> (\<not> PL2_SW_HIT s \<and> (no_active_cars s \<or> active_cars_at 2 s \<and> active_cars_at 1 s) \<longrightarrow>
            enabled (timers (Traffic_iteration s) TIM15)))"
  using steady_state_1 [of s] steady_state_2 [of s] by blast

theorem steady_state_priorities_witness:
  "NextState green_2 = Intersection2 \<and> Intersection2_stage green_2 = 2
   \<and> intersection2_green green_2 \<and> no_active_cars green_2
   \<and> NextState (Traffic_iteration green_2) = Wait30s
   \<and> enabled (timers (Traffic_iteration green_2) TIM15)
   \<and> NextState green_1 = Intersection1 \<and> Intersection1_stage green_1 = 2
   \<and> intersection1_green green_1 \<and> active_cars_at 1 green_1
   \<and> NextState (Traffic_iteration green_1) = Intersection1"
proof -
  note two = green_2_facts(1-5)
  note one = green_1_facts(1-7)
  from two steady_state_priorities [of green_2]
  have c2: "NextState (Traffic_iteration green_2) = Wait30s
     \<and> enabled (timers (Traffic_iteration green_2) TIM15)"
    by auto
  from one steady_state_priorities [of green_1]
  have c1: "NextState (Traffic_iteration green_1) = Intersection1"
    by auto
  from two one c1 c2 show ?thesis by blast
qed

subsection \<open>C5: calls with an identifier other than 1 and 2\<close>




subsection \<open>C6: the transition timer when a transition completes\<close>

lemma stop_intersection_completes:
  assumes "stop_intersection_stage s" and "counter_reached TIM4 orange_Delay s"
  shows "\<not> stop_intersection_stage (stop_intersection k s)"
    and "enabled (timers (stop_intersection k s) TIM4)"
    and "cnt (timers (stop_intersection k s) TIM4) = 0"
    and "if k = 1 then intersection1_red (stop_intersection k s)
         else intersection2_red (stop_intersection k s)"
  using assms by (simp_all add: stop_intersection_def Let_def hal_tim)

lemma go_intersection_completes:
  assumes "go_intersection_stage s" and "counter_reached TIM4 orange_Delay s"
  shows "\<not> go_intersection_stage (go_intersection k s)"
    and "\<not> enabled (timers (go_intersection k s) TIM4)"
    and "cnt (timers (go_intersection k s) TIM4) = 0"
    and "if k = 1 then intersection1_green (go_intersection k s)
         else intersection2_green (go_intersection k s)"
  using assms by (simp_all add: go_intersection_def Let_def hal_tim)

text \<open>
  C6, as the claim states it, fails for \<open>go_intersection\<close>: in the state \<open>amber_1\<close>
  (intersection 1 amber, amber time run out, TIM4 running) the call completes the
  transition, sets \<open>intersection1_green\<close>, and leaves TIM4 stopped.
\<close>

theorem go_intersection_leaves_timer_stopped:
  "go_intersection_stage amber_1 \<and> counter_reached TIM4 orange_Delay amber_1
   \<and> enabled (timers amber_1 TIM4)
   \<and> intersection1_green (go_intersection 1 amber_1)
   \<and> \<not> go_intersection_stage (go_intersection 1 amber_1)
   \<and> \<not> enabled (timers (go_intersection 1 amber_1) TIM4)"
  using amber_1_facts go_intersection_completes [OF amber_1_facts(1,2), of 1] by simp

text \<open>
  C6, amended.  When \<open>stop_intersection\<close> completes its final stage (stage 1, amber
  time reached) it sets the red flag and leaves TIM4 running from zero; when
  \<open>go_intersection\<close> completes its final stage it sets the green flag and leaves TIM4
  stopped at zero.
\<close>

theorem transition_timer_after_completion:
  "(stop_intersection_stage s \<and> counter_reached TIM4 orange_Delay s \<longrightarrow>
      \<not> stop_intersection_stage (stop_intersection k s)
      \<and> (if k = 1 then intersection1_red (stop_intersection k s)
          else intersection2_red (stop_intersection k s))
      \<and> enabled (timers (stop_intersection k s) TIM4)
      \<and> cnt (timers (stop_intersection k s) TIM4) = 0)
   \<and> (go_intersection_stage s \<and> counter_reached TIM4 orange_Delay s \<longrightarrow>
      \<not> go_intersection_stage (go_intersection k s)
      \<and> (if k = 1 then intersection1_green (go_intersection k s)
          else intersection2_green (go_intersection k s))
      \<and> \<not> enabled (timers (go_intersection k s) TIM4)
      \<and> cnt (timers (go_intersection k s) TIM4) = 0)"
  using stop_intersection_completes [of s k] go_intersection_completes [of s k] by blast

theorem transition_timer_after_completion_witness:
  "stop_intersection_stage amber_2 \<and> counter_reached TIM4 orange_Delay amber_2
   \<and> intersection2_red (stop_intersection 2 amber_2)
   \<and> enabled (timers (stop_intersection 2 amber_2) TIM4)
   \<and> go_intersection_stage amber_1 \<and> counter_reached TIM4 orange_Delay amber_1
   \<and> intersection1_green (go_intersection 1 amber_1)
   \<and> \<not> enabled (timers (go_intersection 1 amber_1) TIM4)"
proof -
  note two = amber_2_facts
  note one = amber_1_facts(1,2)
  from two transition_timer_after_completion [of amber_2 2]
  have c2: "intersection2_red (stop_intersection 2 amber_2)
      \<and> enabled (timers (stop_intersection 2 amber_2) TIM4)"
    by simp
  from one transition_timer_after_completion [of amber_1 1]
  have c1: "intersection1_green (go_intersection 1 amber_1)
      \<and> \<not> enabled (timers (go_intersection 1 amber_1) TIM4)"
    by simp
  from two one c1 c2 show ?thesis by blast
qed

subsection \<open>C7: a transition call before expiry\<close>

lemma go_intersection_clearance:
  assumes "k = 1 \<or> k = 2"
    and "\<not> go_intersection_stage s" and "\<not> counter_reached TIM4 TIMER_2s s"
  shows "go_intersection k s =
         s\<lparr>go_intersection_greens := (if k = 1 then TL1_Green OR TL3_Green else TL2_Green OR TL4_Green),
           go_intersection_yellows := (if k = 1 then TL1_Yellow OR TL3_Yellow else TL2_Yellow OR TL4_Yellow),
           go_intersection_reds := (if k = 1 then TL1_Red OR TL3_Red else TL2_Red OR TL4_Red)\<rparr>"
proof (cases "k = 1")
  case True
  with assms(2,3) show ?thesis
    by (simp add: go_intersection_def counter_reached_def HAL_TIM_GetCounter_def)
next
  case False
  with assms show ?thesis
    by (simp add: go_intersection_def counter_reached_def HAL_TIM_GetCounter_def)
qed

lemma go_intersection_amber:
  assumes "go_intersection_stage s" and "\<not> counter_reached TIM4 orange_Delay s"
  shows "go_intersection k s = s"
  using assms by (simp add: go_intersection_def)

lemma stop_intersection_clearance:
  assumes "k = 1 \<or> k = 2"
    and "\<not> stop_intersection_stage s" and "\<not> counter_reached TIM4 TIMER_2s s"
  shows "stop_intersection k s =
         s\<lparr>stop_intersection_greens := (if k = 1 then TL1_Green OR TL3_Green else TL2_Green OR TL4_Green),
           stop_intersection_yellows := (if k = 1 then TL1_Yellow OR TL3_Yellow else TL2_Yellow OR TL4_Yellow),
           stop_intersection_reds := (if k = 1 then TL1_Red OR TL3_Red else TL2_Red OR TL4_Red)\<rparr>"
proof (cases "k = 1")
  case True
  with assms(2,3) show ?thesis
    by (simp add: stop_intersection_def counter_reached_def HAL_TIM_GetCounter_def)
next
  case False
  with assms show ?thesis
    by (simp add: stop_intersection_def counter_reached_def HAL_TIM_GetCounter_def)
qed

lemma stop_intersection_amber:
  assumes "stop_intersection_stage s" and "\<not> counter_reached TIM4 orange_Delay s"
  shows "stop_intersection k s = s"
  using assms by (simp add: stop_intersection_def)

lemma go_intersection_clearance_again:
  assumes "k = 1 \<or> k = 2"
    and "\<not> go_intersection_stage s" and "\<not> counter_reached TIM4 TIMER_2s s"
  shows "go_intersection k (go_intersection k s) = go_intersection k s"
proof -
  let ?s' = "go_intersection k s"
  note eq = go_intersection_clearance [OF assms]
  from assms(2,3) have "\<not> go_intersection_stage ?s'" and "\<not> counter_reached TIM4 TIMER_2s ?s'"
    by (simp_all add: eq counter_reached_def HAL_TIM_GetCounter_def)
  from go_intersection_clearance [OF assms(1) this] show ?thesis
    by (simp add: eq)
qed

lemma stop_intersection_clearance_again:
  assumes "k = 1 \<or> k = 2"
    and "\<not> stop_intersection_stage s" and "\<not> counter_reached TIM4 TIMER_2s s"
  shows "stop_intersection k (stop_intersection k s) = stop_intersection k s"
proof -
  let ?s' = "stop_intersection k s"
  note eq = stop_intersection_clearance [OF assms]
  from assms(2,3) have "\<not> stop_intersection_stage ?s'" and "\<not> counter_reached TIM4 TIMER_2s ?s'"
    by (simp_all add: eq counter_reached_def HAL_TIM_GetCounter_def)
  from stop_intersection_clearance [OF assms(1) this] show ?thesis
    by (simp add: eq)
qed

text \<open>
  C7.  For intersection 1 or 2, while the counter of TIM4 is below the threshold of the
  current stage (\<open>TIMER_2s\<close> in stage 0, \<open>orange_Delay\<close> in stage 1), a call of
  \<open>go_intersection\<close> or \<open>stop_intersection\<close> changes no output and no flag: in stage 1
  it returns the state as it was, in stage 0 it only assigns the function's own static
  mask variables (the buffer, the frames sent, every flag, the stage and the timers are
  as before), and a repeated call changes nothing more.
\<close>

theorem transition_call_before_expiry:
  "(k = 1 \<or> k = 2) \<longrightarrow>
     (\<not> go_intersection_stage s \<and> \<not> counter_reached TIM4 TIMER_2s s \<longrightarrow>
        go_intersection k s =
          s\<lparr>go_intersection_greens := (if k = 1 then TL1_Green OR TL3_Green else TL2_Green OR TL4_Green),
            go_intersection_yellows := (if k = 1 then TL1_Yellow OR TL3_Yellow else TL2_Yellow OR TL4_Yellow),
            go_intersection_reds := (if k = 1 then TL1_Red OR TL3_Red else TL2_Red OR TL4_Red)\<rparr>
        \<and> go_intersection k (go_intersection k s) = go_intersection k s)
     \<and> (go_intersection_stage s \<and> \<not> counter_reached TIM4 orange_Delay s \<longrightarrow>
          go_intersection k s = s)
     \<and> (\<not> stop_intersection_stage s \<and> \<not> counter_reached TIM4 TIMER_2s s \<longrightarrow>
        stop_intersection k s =
          s\<lparr>stop_intersection_greens := (if k = 1 then TL1_Green OR TL3_Green else TL2_Green OR TL4_Green),
            stop_intersection_yellows := (if k = 1 then TL1_Yellow OR TL3_Yellow else TL2_Yellow OR TL4_Yellow),
            stop_intersection_reds := (if k = 1 then TL1_Red OR TL3_Red else TL2_Red OR TL4_Red)\<rparr>
        \<and> stop_intersection k (stop_intersection k s) = stop_intersection k s)
     \<and> (stop_intersection_stage s \<and> \<not> counter_reached TIM4 orange_Delay s \<longrightarrow>
          stop_intersection k s = s)"
  using go_intersection_clearance [of k s] go_intersection_clearance_again [of k s]
    go_intersection_amber [of s k]
    stop_intersection_clearance [of k s] stop_intersection_clearance_again [of k s]
    stop_intersection_amber [of s k]
  by blast

theorem transition_call_before_expiry_witness:
  "\<not> go_intersection_stage walk_2 \<and> \<not> counter_reached TIM4 TIMER_2s walk_2
   \<and> spi_out (go_intersection 1 walk_2) = spi_out walk_2
   \<and> shiftreg_buffer (go_intersection 1 walk_2) = shiftreg_buffer walk_2
   \<and> same_flags (go_intersection 1 walk_2) walk_2
   \<and> go_intersection 1 (go_intersection 1 walk_2) = go_intersection 1 walk_2
   \<and> go_intersection_stage amber_1_early \<and> \<not> counter_reached TIM4 orange_Delay amber_1_early
   \<and> go_intersection 1 amber_1_early = amber_1_early
   \<and> \<not> stop_intersection_stage green_2 \<and> \<not> counter_reached TIM4 TIMER_2s green_2
   \<and> same_flags (stop_intersection 2 green_2) green_2
   \<and> stop_intersection_stage amber_2_early \<and> \<not> counter_reached TIM4 orange_Delay amber_2_early
   \<and> stop_intersection 2 amber_2_early = amber_2_early"
proof -
  note go0 = walk_2_facts(3,4)
  note go1 = amber_1_early_facts
  note stop0 = green_2_facts(6,7)
  note stop1 = amber_2_early_facts
  from go0 transition_call_before_expiry [of 1 walk_2]
  have again: "go_intersection 1 (go_intersection 1 walk_2) = go_intersection 1 walk_2"
    by blast
  from go0 transition_call_before_expiry [of 1 walk_2]
  have eq: "go_intersection 1 walk_2 =
      walk_2\<lparr>go_intersection_greens := TL1_Green OR TL3_Green,
        go_intersection_yellows := TL1_Yellow OR TL3_Yellow,
        go_intersection_reds := TL1_Red OR TL3_Red\<rparr>"
    by simp
  have same: "spi_out (go_intersection 1 walk_2) = spi_out walk_2
      \<and> shiftreg_buffer (go_intersection 1 walk_2) = shiftreg_buffer walk_2
      \<and> same_flags (go_intersection 1 walk_2) walk_2"
    by (simp add: eq same_flags_def)
  from go1 transition_call_before_expiry [of 1 amber_1_early]
  have amber: "go_intersection 1 amber_1_early = amber_1_early"
    by simp
  from stop0 transition_call_before_expiry [of 2 green_2]
  have "stop_intersection 2 green_2 =
      green_2\<lparr>stop_intersection_greens := TL2_Green OR TL4_Green,
        stop_intersection_yellows := TL2_Yellow OR TL4_Yellow,
        stop_intersection_reds := TL2_Red OR TL4_Red\<rparr>"
    by simp
  then have same': "same_flags (stop_intersection 2 green_2) green_2"
    by (simp add: same_flags_def)
  from stop1 transition_call_before_expiry [of 2 amber_2_early]
  have amber': "stop_intersection 2 amber_2_early = amber_2_early"
    by simp
  from go0 go1 stop0 stop1 again same amber same' amber' show ?thesis by blast
qed

subsection \<open>C8: latching a pedestrian request\<close>

lemma button_1:
  shows "\<not> PL1_SW_HIT s \<and> crosswalk1_red s \<longrightarrow>
           PL1_SW_HIT (HAL_GPIO_EXTI_Callback PL1_Switch_Pin level s)
           \<and> enabled (timers (HAL_GPIO_EXTI_Callback PL1_Switch_Pin level s) TIM3)
           \<and> update_irq (timers (HAL_GPIO_EXTI_Callback PL1_Switch_Pin level s) TIM3)
           \<and> enabled (timers (HAL_GPIO_EXTI_Callback PL1_Switch_Pin level s) TIM4)"
    and "PL1_SW_HIT s \<or> \<not> crosswalk1_red s \<longrightarrow>
           HAL_GPIO_EXTI_Callback PL1_Switch_Pin level s = s"
    and "PL1_SW_HIT (HAL_GPIO_EXTI_Callback PL1_Switch_Pin level s) \<or> \<not> crosswalk1_red s"
  by (auto simp add: HAL_GPIO_EXTI_Callback_def Let_def hal_tim)

lemma button_2:
  shows "\<not> PL2_SW_HIT s \<and> crosswalk2_red s \<longrightarrow>
           PL2_SW_HIT (HAL_GPIO_EXTI_Callback PL2_Switch_Pin level s)
           \<and> enabled (timers (HAL_GPIO_EXTI_Callback PL2_Switch_Pin level s) TIM3)
           \<and> update_irq (timers (HAL_GPIO_EXTI_Callback PL2_Switch_Pin level s) TIM3)
           \<and> enabled (timers (HAL_GPIO_EXTI_Callback PL2_Switch_Pin level s) TIM4)"
    and "PL2_SW_HIT s \<or> \<not> crosswalk2_red s \<longrightarrow>
           HAL_GPIO_EXTI_Callback PL2_Switch_Pin level s = s"
    and "PL2_SW_HIT (HAL_GPIO_EXTI_Callback PL2_Switch_Pin level s) \<or> \<not> crosswalk2_red s"
  by (auto simp add: HAL_GPIO_EXTI_Callback_def Let_def hal_tim exti_pins)

lemma button_1_again:
  "HAL_GPIO_EXTI_Callback PL1_Switch_Pin level' (HAL_GPIO_EXTI_Callback PL1_Switch_Pin level s)
   = HAL_GPIO_EXTI_Callback PL1_Switch_Pin level s"
proof -
  let ?s' = "HAL_GPIO_EXTI_Callback PL1_Switch_Pin level s"
  have "crosswalk1_red ?s' = crosswalk1_red s"
    by (simp add: HAL_GPIO_EXTI_Callback_def Let_def)
  with button_1(3) [where s = s and level = level] have "PL1_SW_HIT ?s' \<or> \<not> crosswalk1_red ?s'"
    by simp
  with button_1(2) [where s = ?s' and level = level'] show ?thesis by blast
qed

lemma button_2_again:
  "HAL_GPIO_EXTI_Callback PL2_Switch_Pin level' (HAL_GPIO_EXTI_Callback PL2_Switch_Pin level s)
   = HAL_GPIO_EXTI_Callback PL2_Switch_Pin level s"
proof -
  let ?s' = "HAL_GPIO_EXTI_Callback PL2_Switch_Pin level s"
  have "crosswalk2_red ?s' = crosswalk2_red s"
    by (simp add: HAL_GPIO_EXTI_Callback_def Let_def)
  with button_2(3) [where s = s and level = level] have "PL2_SW_HIT ?s' \<or> \<not> crosswalk2_red ?s'"
    by simp
  with button_2(2) [where s = ?s' and level = level'] show ?thesis by blast
qed

lemma green_is_not_red:
  "crosswalk1_green (run es Traffic_start) = (\<not> crosswalk1_red (run es Traffic_start))"
  "crosswalk2_green (run es Traffic_start) = (\<not> crosswalk2_red (run es Traffic_start))"
  by (rule in_phase_colours(4,5) [OF in_phase_reachable])+

text \<open>
  C8.  On an edge of button K the callback latches \<open>PLK_SW_HIT\<close>, and starts the blink
  timer TIM3 with its interrupt and the transition timer TIM4, exactly when the flag
  was clear and \<open>crosswalkK_red\<close> was set; otherwise it returns the state unchanged.
  So a second edge after any edge changes nothing, and in a reachable state, where
  \<open>crosswalkK_green\<close> is the negation of \<open>crosswalkK_red\<close>, an edge while the
  crosswalk is green changes nothing.
\<close>

theorem button_latches_once:
  "(\<not> PL1_SW_HIT s \<and> crosswalk1_red s \<longrightarrow>
      PL1_SW_HIT (HAL_GPIO_EXTI_Callback PL1_Switch_Pin level s)
      \<and> enabled (timers (HAL_GPIO_EXTI_Callback PL1_Switch_Pin level s) TIM3)
      \<and> update_irq (timers (HAL_GPIO_EXTI_Callback PL1_Switch_Pin level s) TIM3)
      \<and> enabled (timers (HAL_GPIO_EXTI_Callback PL1_Switch_Pin level s) TIM4))
   \<and> (PL1_SW_HIT s \<or> \<not> crosswalk1_red s \<longrightarrow>
      HAL_GPIO_EXTI_Callback PL1_Switch_Pin level s = s)
   \<and> HAL_GPIO_EXTI_Callback PL1_Switch_Pin level'
        (HAL_GPIO_EXTI_Callback PL1_Switch_Pin level s)
      = HAL_GPIO_EXTI_Callback PL1_Switch_Pin level s
   \<and> (crosswalk1_green (run es Traffic_start) \<longrightarrow>
      HAL_GPIO_EXTI_Callback PL1_Switch_Pin level (run es Traffic_start) = run es Traffic_start)
   \<and> (\<not> PL2_SW_HIT s \<and> crosswalk2_red s \<longrightarrow>
      PL2_SW_HIT (HAL_GPIO_EXTI_Callback PL2_Switch_Pin level s)
      \<and> enabled (timers (HAL_GPIO_EXTI_Callback PL2_Switch_Pin level s) TIM3)
      \<and> update_irq (timers (HAL_GPIO_EXTI_Callback PL2_Switch_Pin level s) TIM3)
      \<and> enabled (timers (HAL_GPIO_EXTI_Callback PL2_Switch_Pin level s) TIM4))
   \<and> (PL2_SW_HIT s \<or> \<not> crosswalk2_red s \<longrightarrow>
      HAL_GPIO_EXTI_Callback PL2_Switch_Pin level s = s)
   \<and> HAL_GPIO_EXTI_Callback PL2_Switch_Pin level'
        (HAL_GPIO_EXTI_Callback PL2_Switch_Pin level s)
      = HAL_GPIO_EXTI_Callback PL2_Switch_Pin level s
   \<and> (crosswalk2_green (run es Traffic_start) \<longrightarrow>
      HAL_GPIO_EXTI_Callback PL2_Switch_Pin level (run es Traffic_start) = run es Traffic_start)"
  using button_1(1,2) [where s = s and level = level]
    button_1_again [where s = s and level = level and level' = level']
    button_1(2) [where s = "run es Traffic_start" and level = level]
    green_is_not_red(1) [of es]
    button_2(1,2) [where s = s and level = level]
    button_2_again [where s = s and level = level and level' = level']
    button_2(2) [where s = "run es Traffic_start" and level = level]
    green_is_not_red(2) [of es]
  by blast

theorem button_latches_once_witness:
  "\<not> PL1_SW_HIT green_1 \<and> crosswalk1_red green_1
   \<and> PL1_SW_HIT (HAL_GPIO_EXTI_Callback PL1_Switch_Pin True green_1)
   \<and> enabled (timers (HAL_GPIO_EXTI_Callback PL1_Switch_Pin True green_1) TIM3)
   \<and> enabled (timers (HAL_GPIO_EXTI_Callback PL1_Switch_Pin True green_1) TIM4)
   \<and> PL1_SW_HIT walk_1_served \<and> crosswalk1_green walk_1_served
   \<and> HAL_GPIO_EXTI_Callback PL1_Switch_Pin True walk_1_served = walk_1_served
   \<and> \<not> PL2_SW_HIT green_2 \<and> crosswalk2_red green_2
   \<and> PL2_SW_HIT (HAL_GPIO_EXTI_Callback PL2_Switch_Pin True green_2)
   \<and> crosswalk2_green walk_2
   \<and> HAL_GPIO_EXTI_Callback PL2_Switch_Pin True walk_2 = walk_2"
proof -
  note one = green_1_facts(4,8)
  note served = walk_1_served_facts(1,3)
  note two = green_2_facts(4,8)
  note walk = walk_2_facts(1)
  from one button_latches_once [where s = green_1 and level = True]
  have latch1: "PL1_SW_HIT (HAL_GPIO_EXTI_Callback PL1_Switch_Pin True green_1)
      \<and> enabled (timers (HAL_GPIO_EXTI_Callback PL1_Switch_Pin True green_1) TIM3)
      \<and> enabled (timers (HAL_GPIO_EXTI_Callback PL1_Switch_Pin True green_1) TIM4)"
    by blast
  from served button_latches_once [where s = walk_1_served and level = True]
  have keep1: "HAL_GPIO_EXTI_Callback PL1_Switch_Pin True walk_1_served = walk_1_served"
    by blast
  from two button_latches_once [where s = green_2 and level = True]
  have latch2: "PL2_SW_HIT (HAL_GPIO_EXTI_Callback PL2_Switch_Pin True green_2)"
    by blast
  from walk button_latches_once [where level = True and es = car_at_1]
  have keep2: "HAL_GPIO_EXTI_Callback PL2_Switch_Pin True walk_2 = walk_2"
    unfolding walk_2_def by blast
  from one served two walk latch1 keep1 latch2 keep2 show ?thesis by blast
qed

subsection \<open>C9: the thresholds of the two wait states\<close>

lemma in_wait20_facts:
  shows "NextState in_wait20 = Wait20s" and "intersection2_green in_wait20"
    and "\<not> intersection1_green in_wait20"
    and "\<not> PL1_SW_HIT in_wait20" and "\<not> PL2_SW_HIT in_wait20"
    and "enabled (timers in_wait20 TIM15)"
proof -
  have "let s = run enter_wait20 Traffic_start
        in NextState s = Wait20s \<and> intersection2_green s \<and> \<not> intersection1_green s
           \<and> \<not> PL1_SW_HIT s \<and> \<not> PL2_SW_HIT s \<and> enabled (timers s TIM15)"
    by (simp add: schedule_defs run_defs cong: let_weak_cong)
  then have "NextState in_wait20 = Wait20s \<and> intersection2_green in_wait20
      \<and> \<not> intersection1_green in_wait20
      \<and> \<not> PL1_SW_HIT in_wait20 \<and> \<not> PL2_SW_HIT in_wait20
      \<and> enabled (timers in_wait20 TIM15)"
    unfolding Let_def in_wait20_def .
  then show "NextState in_wait20 = Wait20s" and "intersection2_green in_wait20"
    and "\<not> intersection1_green in_wait20"
    and "\<not> PL1_SW_HIT in_wait20" and "\<not> PL2_SW_HIT in_wait20"
    and "enabled (timers in_wait20 TIM15)"
    by blast+
qed

lemma in_wait30_facts:
  shows "NextState in_wait30 = Wait30s" and "intersection2_green in_wait30"
    and "\<not> intersection1_green in_wait30"
    and "\<not> PL1_SW_HIT in_wait30" and "\<not> PL2_SW_HIT in_wait30"
    and "no_active_cars in_wait30" and "enabled (timers in_wait30 TIM15)"
proof -
  have "let s = run enter_wait30 Traffic_start
        in NextState s = Wait30s \<and> intersection2_green s \<and> \<not> intersection1_green s
           \<and> \<not> PL1_SW_HIT s \<and> \<not> PL2_SW_HIT s \<and> no_active_cars s
           \<and> enabled (timers s TIM15)"
    by (simp add: schedule_defs run_defs cong: let_weak_cong)
  then have "NextState in_wait30 = Wait30s \<and> intersection2_green in_wait30
      \<and> \<not> intersection1_green in_wait30
      \<and> \<not> PL1_SW_HIT in_wait30 \<and> \<not> PL2_SW_HIT in_wait30
      \<and> no_active_cars in_wait30 \<and> enabled (timers in_wait30 TIM15)"
    unfolding Let_def in_wait30_def .
  then show "NextState in_wait30 = Wait30s" and "intersection2_green in_wait30"
    and "\<not> intersection1_green in_wait30"
    and "\<not> PL1_SW_HIT in_wait30" and "\<not> PL2_SW_HIT in_wait30"
    and "no_active_cars in_wait30" and "enabled (timers in_wait30 TIM15)"
    by blast+
qed

lemma Wait20s_leaves:
  assumes "NextState s = Wait20s"
    and "\<not> (PL1_SW_HIT s \<and> intersection1_green s)"
    and "\<not> (PL2_SW_HIT s \<and> intersection2_green s)"
    and "intersection1_green s \<or> intersection2_green s"
  shows "(NextState (Traffic_iteration s) \<noteq> Wait20s) = (9899 \<le> uint (cnt (timers s TIM15)))"
    and "NextState (Traffic_iteration s) =
         (if 9899 \<le> uint (cnt (timers s TIM15))
          then (if intersection1_green s then Intersection2 else Intersection1)
          else Wait20s)"
  using assms
  by (auto simp add: traffic_defs Let_def counter_reached_def HAL_TIM_GetCounter_def
      red_delay_Max_def transition_Time_def)

lemma Wait30s_leaves:
  assumes "NextState s = Wait30s" and "no_active_cars s"
    and "\<not> (PL1_SW_HIT s \<and> intersection1_green s)"
    and "\<not> (PL2_SW_HIT s \<and> intersection2_green s)"
    and "intersection1_green s \<or> intersection2_green s"
  shows "(NextState (Traffic_iteration s) \<noteq> Wait30s) = (29899 \<le> uint (cnt (timers s TIM15)))"
    and "NextState (Traffic_iteration s) =
         (if 29899 \<le> uint (cnt (timers s TIM15))
          then (if intersection1_green s then Intersection2 else Intersection1)
          else Wait30s)"
  using assms
  by (auto simp add: traffic_defs Let_def counter_reached_def HAL_TIM_GetCounter_def
      green_Delay_def transition_Time_def no_active_cars_def)

text \<open>
  C9, as the claim states it, fails: the constant that both thresholds subtract is not
  a 5 s hand-over cost (10000 ticks) but \<open>transition_Time\<close>, 30000 ticks; the 20 s
  threshold plus a hand-over of 5 s (and the margin of 101 ticks) is 20000 ticks, that
  is 10 s, not 20 s.
\<close>

theorem handover_cost_counterexample:
  "transition_Time = 30000 \<and> 5 * ticks_per_second = 10000
   \<and> transition_Time \<noteq> 5 * ticks_per_second
   \<and> red_delay_Max + 101 + 5 * ticks_per_second = 10 * ticks_per_second
   \<and> red_delay_Max + 101 + 5 * ticks_per_second \<noteq> 20 * ticks_per_second"
  by (simp add: timer_consts ticks_per_second_def)

text \<open>
  C9, amended.  The thresholds of \<open>Wait20s\<close> and \<open>Wait30s\<close> are both computed by
  subtracting the same constant \<open>transition_Time\<close>, 30000 ticks (15 s, not 5 s), and a
  margin of 101 ticks from a nominal total of 40000 ticks (20 s) for \<open>Wait20s\<close> and of
  60000 ticks (30 s) for \<open>Wait30s\<close>: \<open>red_delay_Max\<close> is 9899 ticks (just under 5 s)
  and \<open>green_Delay\<close> is 29899 ticks (just under 15 s).  With an intersection green
  and no request pre-empting, a pass of the loop in \<open>Wait20s\<close> leaves the wait exactly
  when the counter of TIM15 has reached 9899, and a pass in \<open>Wait30s\<close> with no car
  active exactly when it has reached 29899; it then hands over to the intersection that
  is not green.  So the hold timer fires \<open>transition_Time\<close> plus the margin before
  the nominal total.
\<close>

theorem wait_thresholds:
  "transition_Time = 30000
   \<and> red_delay_Max = 40000 - transition_Time - 101
   \<and> green_Delay = 60000 - transition_Time - 101
   \<and> red_delay_Max = 9899 \<and> green_Delay = 29899
   \<and> 40000 = 20 * ticks_per_second \<and> 60000 = 30 * ticks_per_second
   \<and> transition_Time = 15 * ticks_per_second
   \<and> (NextState s = Wait20s
       \<and> \<not> (PL1_SW_HIT s \<and> intersection1_green s)
       \<and> \<not> (PL2_SW_HIT s \<and> intersection2_green s)
       \<and> (intersection1_green s \<or> intersection2_green s) \<longrightarrow>
      (NextState (Traffic_iteration s) \<noteq> Wait20s)
        = (red_delay_Max \<le> uint (cnt (timers s TIM15)))
      \<and> NextState (Traffic_iteration s) =
          (if 9899 \<le> uint (cnt (timers s TIM15))
           then (if intersection1_green s then Intersection2 else Intersection1)
           else Wait20s))
   \<and> (NextState s = Wait30s \<and> no_active_cars s
       \<and> \<not> (PL1_SW_HIT s \<and> intersection1_green s)
       \<and> \<not> (PL2_SW_HIT s \<and> intersection2_green s)
       \<and> (intersection1_green s \<or> intersection2_green s) \<longrightarrow>
      (NextState (Traffic_iteration s) \<noteq> Wait30s)
        = (green_Delay \<le> uint (cnt (timers s TIM15)))
      \<and> NextState (Traffic_iteration s) =
          (if 29899 \<le> uint (cnt (timers s TIM15))
           then (if intersection1_green s then Intersection2 else Intersection1)
           else Wait30s))"
  by (intro conjI impI)
    (simp_all add: timer_consts ticks_per_second_def Wait20s_leaves Wait30s_leaves)

theorem wait_thresholds_witness:
  "NextState in_wait20 = Wait20s \<and> intersection2_green in_wait20
   \<and> NextState (Traffic_iteration (HAL_TIM_SetCounter TIM15 9898 in_wait20)) = Wait20s
   \<and> NextState (Traffic_iteration (HAL_TIM_SetCounter TIM15 9899 in_wait20)) = Intersection1
   \<and> NextState in_wait30 = Wait30s \<and> intersection2_green in_wait30
   \<and> no_active_cars in_wait30
   \<and> NextState (Traffic_iteration (HAL_TIM_SetCounter TIM15 29898 in_wait30)) = Wait30s
   \<and> NextState (Traffic_iteration (HAL_TIM_SetCounter TIM15 29899 in_wait30)) = Intersection1"
proof -
  note w20 = in_wait20_facts
  note w30 = in_wait30_facts
  from w20 wait_thresholds [of "HAL_TIM_SetCounter TIM15 9898 in_wait20"]
  have stay20: "NextState (Traffic_iteration (HAL_TIM_SetCounter TIM15 9898 in_wait20)) = Wait20s"
    by (simp add: HAL_TIM_SetCounter_def)
  from w20 wait_thresholds [of "HAL_TIM_SetCounter TIM15 9899 in_wait20"]
  have go20: "NextState (Traffic_iteration (HAL_TIM_SetCounter TIM15 9899 in_wait20)) = Intersection1"
    by (simp add: HAL_TIM_SetCounter_def)
  from w30 wait_thresholds [of "HAL_TIM_SetCounter TIM15 29898 in_wait30"]
  have stay30: "NextState (Traffic_iteration (HAL_TIM_SetCounter TIM15 29898 in_wait30)) = Wait30s"
    by (simp add: HAL_TIM_SetCounter_def no_active_cars_def)
  from w30 wait_thresholds [of "HAL_TIM_SetCounter TIM15 29899 in_wait30"]
  have go30: "NextState (Traffic_iteration (HAL_TIM_SetCounter TIM15 29899 in_wait30)) = Intersection1"
    by (simp add: HAL_TIM_SetCounter_def no_active_cars_def)
  from w20 w30 stay20 go20 stay30 go30 show ?thesis by blast
qed

subsection \<open>C10: an invalid identifier reads as "cars active"\<close>

text \<open>
  C10.  For an intersection identifier other than 1 and 2, and whatever the four car
  flags are, \<open>active_cars_at\<close> reaches \<open>return -1\<close>, and the \<open>bool\<close> the caller
  receives is true.
\<close>

theorem active_cars_at_invalid_id:
  assumes "intersection \<noteq> 1" and "intersection \<noteq> 2"
  shows "active_cars_at_value intersection s = - 1 \<and> active_cars_at intersection s = True"
  using assms by (simp add: active_cars_at_def active_cars_at_value_def)

theorem active_cars_at_invalid_id_witness:
  "(3 :: 8 word) \<noteq> 1 \<and> (3 :: 8 word) \<noteq> 2
   \<and> no_active_cars power_on
   \<and> active_cars_at_value 3 power_on = - 1 \<and> active_cars_at 3 power_on = True"
  using active_cars_at_invalid_id [of 3 power_on]
  by (simp add: no_active_cars_def power_on_def)

end
